theory Spec2Isabelle
  imports Main "HOL-Library.Word"
begin

unbundle bit_operations_syntax

section \<open>Python values and exceptions\<close>

text \<open>
  The client passes JSON documents around as untyped Python values (dictionaries, lists,
  strings, integers, booleans, \<open>None\<close>). A dictionary is an association list: the
  program patches \<open>json.loads\<close> to build ordered dictionaries. JSON floating point
  numbers are not modelled.
\<close>

datatype json =
    JNull
  | JBool bool
  | JNum int
  | JStr string
  | JList "json list"
  | JObj "(string \<times> json) list"

text \<open>
  Every exception the modelled code can raise is a value. \<open>RuntimeError\<close> carries the
  object it was raised with; \<open>LibraryError\<close> stands for an exception raised inside an
  external library (gdk, wally, hwilib).
\<close>

datatype error =
    RuntimeError json
  | KeyError json
  | AttributeError string
  | IndexError
  | TypeError
  | ValueError
  | EOFError
  | NotImplementedError string
  | ClickException string
  | PermissionError string
  | FileNotFoundError string
  | OSError string
  | UnicodeEncodeError
  | LibraryError string

type_synonym 'a result = "error + 'a"

text \<open>Sequencing of fallible computations: the first exception ends the computation.\<close>

definition bind_result :: "'a result \<Rightarrow> ('a \<Rightarrow> 'b result) \<Rightarrow> 'b result" where
  "bind_result r f = (case r of Inl e \<Rightarrow> Inl e | Inr x \<Rightarrow> f x)"

text \<open>Python truthiness (\<open>bool(v)\<close>, as used by \<open>if v\<close>, \<open>not v\<close> and \<open>or\<close>).\<close>

fun truthy :: "json \<Rightarrow> bool" where
  "truthy JNull = False"
| "truthy (JBool b) = b"
| "truthy (JNum n) = (n \<noteq> 0)"
| "truthy (JStr s) = (s \<noteq> [])"
| "truthy (JList xs) = (xs \<noteq> [])"
| "truthy (JObj kvs) = (kvs \<noteq> [])"

text \<open>\<open>d[k]\<close> with a string key: only a dictionary can be subscripted this way.\<close>

fun getitem :: "json \<Rightarrow> string \<Rightarrow> json result" where
  "getitem (JObj kvs) k = (case map_of kvs k of None \<Rightarrow> Inl (KeyError (JStr k)) | Some v \<Rightarrow> Inr v)"
| "getitem _ k = Inl TypeError"

section \<open>Text\<close>

text \<open>
  A Python \<open>str\<close> whose characters matter (a mnemonic phrase, the content of a file)
  is the list of its Unicode code points. File names, messages and the strings inside
  JSON documents stay character strings.
\<close>

type_synonym unicode = "nat list"

definition ascii :: "string \<Rightarrow> unicode" where
  "ascii s = map of_char s"

definition carriage_return :: nat where "carriage_return = 13"
definition line_feed :: nat where "line_feed = 10"

text \<open>The line feed inside a message.\<close>

definition LF :: char where "LF = CHR 0x0A"

section \<open>The file system\<close>

text \<open>
  The configuration directory exists and holds regular files. A file has a content,
  permission bits, and the class the process falls in for it (its owner, a member of
  its group, or somebody else). The process may be privileged (user id 0), in which case
  no permission bit binds it; the directory may or may not allow the process to create
  and remove entries. A file that does not exist is created by \<open>open(name, 'w')\<close> with
  the creation mode of the process, owned by it.

  The program writes with \<open>open(name, 'w').write(data)\<close> and never closes or flushes
  the file object: an exception of the write call itself reaches the program, while a
  failure that shows only when the buffered text is flushed at the implicit close is
  discarded. What a write does is therefore the storage's answer, a parameter: the
  exception the write call raises, if any, and the text that ends up in the file (all of
  \<open>data\<close>, or less when the device is full, a size limit applies, or the text cannot
  be encoded).
\<close>

datatype user_class = Owner | Group | Other

record disk_file =
  content :: unicode
  mode :: nat
  accessor :: user_class

record filesystem =
  files :: "string \<Rightarrow> disk_file option"
  creation_mode :: nat
  privileged :: bool
  directory_writable :: bool
  storage :: "string \<Rightarrow> unicode \<Rightarrow> error option \<times> unicode"

definition S_IRUSR :: nat where "S_IRUSR = 256"

fun read_bit :: "user_class \<Rightarrow> nat" where
  "read_bit Owner = 256"
| "read_bit Group = 32"
| "read_bit Other = 4"

fun write_bit :: "user_class \<Rightarrow> nat" where
  "write_bit Owner = 128"
| "write_bit Group = 16"
| "write_bit Other = 2"

definition may_read :: "filesystem \<Rightarrow> disk_file \<Rightarrow> bool" where
  "may_read fs f = (privileged fs \<or> mode f div read_bit (accessor f) mod 2 = 1)"

definition may_write :: "filesystem \<Rightarrow> disk_file \<Rightarrow> bool" where
  "may_write fs f = (privileged fs \<or> mode f div write_bit (accessor f) mod 2 = 1)"

text \<open>
  Reading in text mode translates the line endings \<open>\r\n\<close> and \<open>\r\<close> to \<open>\n\<close>
  (Python's universal newlines).
\<close>

fun universal_newlines :: "unicode \<Rightarrow> unicode" where
  "universal_newlines [] = []"
| "universal_newlines [c] = (if c = carriage_return then [line_feed] else [c])"
| "universal_newlines (c # d # cs) =
     (if c = carriage_return \<and> d = line_feed then line_feed # universal_newlines cs
      else if c = carriage_return then line_feed # universal_newlines (d # cs)
      else c # universal_newlines (d # cs))"

text \<open>\<open>open(name).read()\<close>\<close>

definition open_read :: "filesystem \<Rightarrow> string \<Rightarrow> unicode result" where
  "open_read fs fn =
     (case files fs fn of
        None \<Rightarrow> Inl (FileNotFoundError fn)
      | Some f \<Rightarrow>
          if may_read fs f then Inr (universal_newlines (content f))
          else Inl (PermissionError fn))"

text \<open>
  The write through the file object opened on \<open>f\<close>: opening has emptied the file, and
  the storage decides what the write leaves in it and whether the write call raises.
\<close>

definition write_through ::
  "filesystem \<Rightarrow> string \<Rightarrow> disk_file \<Rightarrow> unicode \<Rightarrow> unit result \<times> filesystem" where
  "write_through fs fn f data =
     (case storage fs fn data of
        (exn, landed) \<Rightarrow>
          ((case exn of None \<Rightarrow> Inr () | Some e \<Rightarrow> Inl e),
           fs\<lparr>files := (files fs)(fn \<mapsto> f\<lparr>content := landed\<rparr>)\<rparr>))"

text \<open>\<open>open(name, 'w').write(data)\<close>: the state after it, and the exception if any.\<close>

definition open_write :: "filesystem \<Rightarrow> string \<Rightarrow> unicode \<Rightarrow> unit result \<times> filesystem" where
  "open_write fs fn data =
     (case files fs fn of
        None \<Rightarrow>
          if privileged fs \<or> directory_writable fs
          then write_through fs fn \<lparr>content = [], mode = creation_mode fs, accessor = Owner\<rparr> data
          else (Inl (PermissionError fn), fs)
      | Some f \<Rightarrow>
          if may_write fs f then write_through fs fn f data
          else (Inl (PermissionError fn), fs))"

text \<open>\<open>os.chmod(name, m)\<close>: only the owner of a file, or a privileged process, may do it.\<close>

definition chmod :: "filesystem \<Rightarrow> string \<Rightarrow> nat \<Rightarrow> unit result \<times> filesystem" where
  "chmod fs fn m =
     (case files fs fn of
        None \<Rightarrow> (Inl (FileNotFoundError fn), fs)
      | Some f \<Rightarrow>
          if privileged fs \<or> accessor f = Owner
          then (Inr (), fs\<lparr>files := (files fs)(fn \<mapsto> f\<lparr>mode := m\<rparr>)\<rparr>)
          else (Inl (PermissionError fn), fs))"

text \<open>\<open>os.remove(name)\<close>: decided by the directory, not by the file.\<close>

definition remove_file :: "filesystem \<Rightarrow> string \<Rightarrow> unit result \<times> filesystem" where
  "remove_file fs fn =
     (case files fs fn of
        None \<Rightarrow> (Inl (FileNotFoundError fn), fs)
      | Some f \<Rightarrow>
          if privileged fs \<or> directory_writable fs
          then (Inr (), fs\<lparr>files := (files fs)(fn := None)\<rparr>)
          else (Inl (PermissionError fn), fs))"

text \<open>\<open>os.path.join(dir, name)\<close> for a relative \<open>name\<close>.\<close>

definition path_join :: "string \<Rightarrow> string \<Rightarrow> string" where
  "path_join d n = (if d = [] then n else if last d = CHR ''/'' then d @ n else d @ ''/'' @ n)"

subsection \<open>File systems for concrete runs\<close>

text \<open>
  A storage that takes every text whole, one that silently takes nothing (a full
  device), and the file systems of an ordinary user and of a privileged one on the
  former.
\<close>

definition sound_storage :: "string \<Rightarrow> unicode \<Rightarrow> error option \<times> unicode" where
  "sound_storage fn data = (None, data)"

definition full_storage :: "string \<Rightarrow> unicode \<Rightarrow> error option \<times> unicode" where
  "full_storage fn data = (None, [])"

definition user_disk :: "(string \<times> disk_file) list \<Rightarrow> filesystem" where
  "user_disk entries =
     \<lparr>files = map_of entries, creation_mode = 420, privileged = False,
      directory_writable = True, storage = sound_storage\<rparr>"

definition root_disk :: "(string \<times> disk_file) list \<Rightarrow> filesystem" where
  "root_disk entries =
     \<lparr>files = map_of entries, creation_mode = 420, privileged = True,
      directory_writable = True, storage = sound_storage\<rparr>"

definition full_disk :: "(string \<times> disk_file) list \<Rightarrow> filesystem" where
  "full_disk entries =
     \<lparr>files = map_of entries, creation_mode = 420, privileged = False,
      directory_writable = True, storage = full_storage\<rparr>"

definition seed_file :: "string \<Rightarrow> disk_file" where
  "seed_file phrase = \<lparr>content = ascii phrase, mode = 256, accessor = Owner\<rparr>"

section \<open>The mnemonic store (class MnemonicOnDisk)\<close>

definition mnemonic_filename :: "string \<Rightarrow> string" where
  "mnemonic_filename config_dir = path_join config_dir ''mnemonic''"

text \<open>The getter of the property \<open>_mnemonic\<close>.\<close>

definition mnemonic_getter :: "string \<Rightarrow> filesystem \<Rightarrow> unicode result" where
  "mnemonic_getter config_dir fs = open_read fs (mnemonic_filename config_dir)"

definition refusing_message :: "string \<Rightarrow> string" where
  "refusing_message fn =
     ''Refusing to overwrite mnemonic file '' @ fn @ [LF] @
     ''First backup and then delete or change file permissions''"

text \<open>
  The setter of the property \<open>_mnemonic\<close>: write, turning a \<open>PermissionError\<close> into a
  \<open>ClickException\<close>, then make the file owner-read-only.
\<close>

definition mnemonic_setter :: "string \<Rightarrow> filesystem \<Rightarrow> unicode \<Rightarrow> unit result \<times> filesystem" where
  "mnemonic_setter config_dir fs mnemonic =
     (case open_write fs (mnemonic_filename config_dir) mnemonic of
        (Inl (PermissionError _), fs1) \<Rightarrow>
          (Inl (ClickException (refusing_message (mnemonic_filename config_dir))), fs1)
      | (Inl e, fs1) \<Rightarrow> (Inl e, fs1)
      | (Inr _, fs1) \<Rightarrow> chmod fs1 (mnemonic_filename config_dir) S_IRUSR)"


section \<open>The software authenticator (classes SoftwareAuthenticator, DefaultAuthenticator)\<close>

text \<open>
  \<open>str.isspace\<close> on one character, by code point (Python 3.4 and later): the ASCII
  whitespace (tab, line feed, vertical tab, form feed, carriage return, the four
  separators \<open>0x1c\<close> to \<open>0x1f\<close>, the space), the next-line control \<open>0x85\<close>, the
  no-break space \<open>0xa0\<close>, and the Unicode spaces \<open>0x1680\<close>, \<open>0x2000\<close> to
  \<open>0x200a\<close>, \<open>0x2028\<close>, \<open>0x2029\<close>, \<open>0x202f\<close>, \<open>0x205f\<close> and \<open>0x3000\<close>.
\<close>

definition isspace :: "nat \<Rightarrow> bool" where
  "isspace n =
     ((9 \<le> n \<and> n \<le> 13) \<or> (28 \<le> n \<and> n \<le> 32) \<or> n = 133 \<or> n = 160 \<or> n = 5760
      \<or> (8192 \<le> n \<and> n \<le> 8202) \<or> n = 8232 \<or> n = 8233 \<or> n = 8239 \<or> n = 8287
      \<or> n = 12288)"

text \<open>
  \<open>s.split()\<close> with no separator: the maximal runs of characters that are not
  whitespace, in order. The first argument is the run read so far.
\<close>

fun split_from :: "unicode \<Rightarrow> unicode \<Rightarrow> unicode list" where
  "split_from cur [] = (if cur = [] then [] else [cur])"
| "split_from cur (c # cs) =
     (if isspace c then (if cur = [] then split_from [] cs else cur # split_from [] cs)
      else split_from (cur @ [c]) cs)"

definition py_split :: "unicode \<Rightarrow> unicode list" where
  "py_split s = split_from [] s"

text \<open>\<open>sep.join(words)\<close>\<close>

fun py_join :: "'a list \<Rightarrow> 'a list list \<Rightarrow> 'a list" where
  "py_join sep [] = []"
| "py_join sep [w] = w"
| "py_join sep (w # v # ws) = w @ sep @ py_join sep (v # ws)"

text \<open>The first statement of \<open>setmnemonic\<close>: \<open>' '.join(mnemonic.split())\<close>.\<close>

definition normalise :: "unicode \<Rightarrow> unicode" where
  "normalise mnemonic = py_join [32] (py_split mnemonic)"

text \<open>
  \<open>SoftwareAuthenticator.setmnemonic\<close>. The validator \<open>gdk.validate_mnemonic\<close>
  belongs to the backend library and is a parameter; it answers yes or no, or raises.
\<close>

definition setmnemonic ::
  "(unicode \<Rightarrow> bool result) \<Rightarrow> string \<Rightarrow> filesystem \<Rightarrow> unicode \<Rightarrow> unit result \<times> filesystem" where
  "setmnemonic validate_mnemonic config_dir fs mnemonic =
     (let mnemonic = normalise mnemonic in
      case validate_mnemonic mnemonic of
        Inl e \<Rightarrow> (Inl e, fs)
      | Inr valid \<Rightarrow>
          if \<not> valid then (Inl (ClickException ''Invalid mnemonic''), fs)
          else mnemonic_setter config_dir fs mnemonic)"

definition pin_data_filename :: "string \<Rightarrow> string" where
  "pin_data_filename config_dir = path_join config_dir ''pin_data''"

text \<open>
  \<open>DefaultAuthenticator.setpin\<close>. The property \<open>mnemonic\<close> of this class reads the
  mnemonic file; the three \<open>print\<close> calls only format values already read and are left
  out. \<open>gdk.set_pin\<close> is the remote call, a parameter that may raise.
\<close>

definition setpin ::
  "('s \<Rightarrow> unicode \<Rightarrow> string \<Rightarrow> string \<Rightarrow> unicode result) \<Rightarrow> string \<Rightarrow> filesystem \<Rightarrow>
     's \<Rightarrow> string \<Rightarrow> string \<Rightarrow> unicode result \<times> filesystem" where
  "setpin set_pin config_dir fs session_obj pin device_id =
     (case mnemonic_getter config_dir fs of
        Inl e \<Rightarrow> (Inl e, fs)
      | Inr mnemonic \<Rightarrow>
          (case set_pin session_obj mnemonic pin device_id of
             Inl e \<Rightarrow> (Inl e, fs)
           | Inr pin_data \<Rightarrow>
               (case open_write fs (pin_data_filename config_dir) pin_data of
                  (Inl e, fs1) \<Rightarrow> (Inl e, fs1)
                | (Inr _, fs1) \<Rightarrow>
                    (case remove_file fs1 (mnemonic_filename config_dir) of
                       (Inl e, fs2) \<Rightarrow> (Inl e, fs2)
                     | (Inr _, fs2) \<Rightarrow> (Inr pin_data, fs2)))))"

text \<open>
  A validator for concrete runs of the model: it accepts exactly one phrase. The real
  validator checks the word list and the checksum of the phrase.
\<close>

definition accepts_only :: "unicode \<Rightarrow> unicode \<Rightarrow> bool result" where
  "accepts_only phrase m = Inr (m = phrase)"


section \<open>Python built-ins\<close>

text \<open>
  Three functions of the Python runtime are parameters of the model: \<open>str\<close> (which
  \<open>'{}'.format\<close> applies to its argument), \<open>int\<close> on a string, and \<open>json.dumps\<close>.
\<close>

record python =
  str_of :: "json \<Rightarrow> string"
  int_of :: "string \<Rightarrow> int result"
  json_dumps :: "json \<Rightarrow> string"

section \<open>The authenticators\<close>

text \<open>
  The three concrete classes: \<open>DefaultAuthenticator(config_dir)\<close>,
  \<open>WallyAuthenticator(config_dir)\<close> and \<open>HWIDevice(details)\<close>, the last with the device
  handle its constructor obtained from the hardware library. The classes
  \<open>WallyAuthenticator\<close> and \<open>HWIDevice\<close> derive from \<open>HardwareDevice\<close>.
\<close>

datatype 'd authenticator =
    DefaultAuthenticator string
  | WallyAuthenticator string
  | HWIDevice json 'd

fun is_HardwareDevice :: "'d authenticator \<Rightarrow> bool" where
  "is_HardwareDevice (DefaultAuthenticator _) = False"
| "is_HardwareDevice (WallyAuthenticator _) = True"
| "is_HardwareDevice (HWIDevice _ _) = True"

text \<open>
  The property \<open>name\<close>. \<open>DefaultAuthenticator\<close> has no such attribute; nothing in the
  program reads it there.
\<close>

fun name :: "python \<Rightarrow> 'd authenticator \<Rightarrow> string result" where
  "name py (WallyAuthenticator _) = Inr ''libwally software signer''"
| "name py (HWIDevice details _) =
     bind_result (getitem details ''type'') (\<lambda>t.
     bind_result (getitem details ''path'') (\<lambda>p.
     Inr (str_of py t @ ''@'' @ str_of py p)))"
| "name py (DefaultAuthenticator _) = Inl (AttributeError ''name'')"

text \<open>The properties \<open>hw_device\<close>, \<open>mnemonic\<close> and \<open>password\<close>.\<close>

fun hw_device :: "python \<Rightarrow> 'd authenticator \<Rightarrow> string result" where
  "hw_device py (DefaultAuthenticator _) = Inr (json_dumps py (JObj []))"
| "hw_device py a =
     bind_result (name py a) (\<lambda>n.
     Inr (json_dumps py (JObj [(''device'', JObj [(''name'', JStr n)])])))"

fun mnemonic :: "'d authenticator \<Rightarrow> filesystem \<Rightarrow> unicode result" where
  "mnemonic (DefaultAuthenticator config_dir) fs = mnemonic_getter config_dir fs"
| "mnemonic _ fs = Inr ''''"

fun password :: "'d authenticator \<Rightarrow> string" where
  "password _ = ''''"

text \<open>
  \<open>Authenticator.login\<close>: the arguments of \<open>gdk.login\<close> after the session, evaluated
  left to right, and the call itself. \<open>gdk.login\<close> is a parameter.
  (\<open>DefaultAuthenticator\<close> wraps this method in a fallback to PIN login, which is not
  part of the model.)
\<close>

definition login_arguments ::
  "python \<Rightarrow> 'd authenticator \<Rightarrow> filesystem \<Rightarrow> (string \<times> unicode \<times> string) result" where
  "login_arguments py a fs =
     bind_result (hw_device py a) (\<lambda>d.
     bind_result (mnemonic a fs) (\<lambda>m.
     Inr (d, m, password a)))"

definition Authenticator_login ::
  "('s \<Rightarrow> string \<Rightarrow> unicode \<Rightarrow> string \<Rightarrow> 'h result) \<Rightarrow> python \<Rightarrow> 'd authenticator \<Rightarrow>
     filesystem \<Rightarrow> 's \<Rightarrow> 'h result" where
  "Authenticator_login gdk_login py a fs session_obj =
     bind_result (login_arguments py a fs) (\<lambda>(d, m, p). gdk_login session_obj d m p)"

subsection \<open>Selecting a hardware device\<close>

definition no_devices_message :: string where
  "no_devices_message =
     ''No hwi devices'' @ [LF] @
     ''Check:'' @ [LF] @
     ''- A device is attached'' @ [LF] @
     ''- udev rules, device drivers, etc.'' @ [LF] @
     ''- Cables/connections'' @ [LF] @
     ''- The device is enabled, for example by entering a PIN'' @ [LF]"

definition device_error_message :: "python \<Rightarrow> json \<Rightarrow> string" where
  "device_error_message py e =
     ''Error with hwi device: '' @ str_of py e @ [LF] @
     ''Check the device and activate the bitcoin app if necessary''"

text \<open>
  \<open>HWIDevice.__init__\<close>: looks the device up by its path.
  \<open>hwilib.commands.find_device\<close> is a parameter.
\<close>

definition HWIDevice_init :: "(json \<Rightarrow> 'd result) \<Rightarrow> json \<Rightarrow> 'd authenticator result" where
  "HWIDevice_init find_device details =
     bind_result (getitem details ''path'') (\<lambda>p.
     bind_result (find_device p) (\<lambda>dev.
     Inr (HWIDevice details dev)))"

text \<open>
  \<open>HWIDevice.get_device\<close>. The third argument is what \<open>hwilib.commands.enumerate()\<close>
  returned: a list of dictionaries, one per device.
\<close>

definition get_device ::
  "python \<Rightarrow> (json \<Rightarrow> 'd result) \<Rightarrow> (string \<times> json) list list \<Rightarrow> 'd authenticator result" where
  "get_device py find_device devices =
     (if length devices = 0 then Inl (ClickException no_devices_message)
      else if length devices > 1 then Inl (NotImplementedError ''Device selection not implemented'')
      else
        let device = devices ! 0 in
        (case map_of device ''error'' of
           Some e \<Rightarrow> Inl (ClickException (device_error_message py e))
         | None \<Rightarrow> HWIDevice_init find_device (JObj device)))"

subsection \<open>A plain Python runtime for concrete runs\<close>

text \<open>
  Scalars are rendered as Python renders them; a list or a dictionary is rendered by
  \<open>json.dumps\<close> without escapes in strings, and \<open>str\<close> of one is not needed in the
  runs below and elided.
\<close>

fun digits :: "nat \<Rightarrow> string" where
  "digits n =
     (if n < 10 then [''0123456789'' ! n]
      else digits (n div 10) @ [''0123456789'' ! (n mod 10)])"

declare digits.simps [simp del]

definition decimal :: "int \<Rightarrow> string" where
  "decimal i = (if i < 0 then ''-'' @ digits (nat (- i)) else digits (nat i))"

fun plain_str :: "json \<Rightarrow> string" where
  "plain_str JNull = ''None''"
| "plain_str (JBool b) = (if b then ''True'' else ''False'')"
| "plain_str (JNum n) = decimal n"
| "plain_str (JStr s) = s"
| "plain_str (JList _) = ''[...]''"
| "plain_str (JObj _) = ''{...}''"

definition is_digit :: "char \<Rightarrow> bool" where
  "is_digit c = (let n = (of_char c :: nat) in 48 \<le> n \<and> n \<le> 57)"

definition plain_int :: "string \<Rightarrow> int result" where
  "plain_int s =
     (if s \<noteq> [] \<and> list_all is_digit s
      then Inr (foldl (\<lambda>a c. 10 * a + (int (of_char c) - 48)) 0 s)
      else Inl ValueError)"

fun plain_dumps :: "json \<Rightarrow> string" where
  "plain_dumps JNull = ''null''"
| "plain_dumps (JBool b) = (if b then ''true'' else ''false'')"
| "plain_dumps (JNum n) = decimal n"
| "plain_dumps (JStr s) = [CHR 0x22] @ s @ [CHR 0x22]"
| "plain_dumps (JList xs) = ''['' @ py_join '', '' (map plain_dumps xs) @ '']''"
| "plain_dumps (JObj kvs) =
     ''{'' @ py_join '', '' (map (\<lambda>kv. [CHR 0x22] @ fst kv @ [CHR 0x22] @ '': '' @ plain_dumps (snd kv)) kvs)
     @ ''}''"

definition plain_python :: python where
  "plain_python = \<lparr>str_of = plain_str, int_of = plain_int, json_dumps = plain_dumps\<rparr>"


section \<open>The wally signer (class WallyAuthenticator)\<close>

type_synonym bytes = "8 word list"

text \<open>
  The cryptographic library \<open>wallycore\<close> is not part of the program: its constants
  and functions are the fields of a record, each function free to raise. \<open>'k\<close> is the
  type of extended keys, \<open>'tx\<close> the type of parsed transactions.
\<close>

record ('k, 'tx) wally =
  BIP32_VER_TEST_PRIVATE :: int
  BIP32_FLAG_KEY_PRIVATE :: int
  BIP32_FLAG_KEY_PUBLIC :: int
  WALLY_TX_FLAG_USE_WITNESS :: int
  WALLY_SIGHASH_ALL :: int
  EC_FLAG_ECDSA :: int
  EC_FLAG_GRIND_R :: int
  bip39_mnemonic_to_seed512 :: "unicode \<Rightarrow> bytes result"
  bip32_key_from_seed :: "bytes \<Rightarrow> int \<Rightarrow> int \<Rightarrow> 'k result"
  bip32_key_from_parent :: "'k \<Rightarrow> 32 word \<Rightarrow> int \<Rightarrow> 'k result"
  bip32_key_get_priv_key :: "'k \<Rightarrow> bytes result"
  bip32_key_to_base58 :: "'k \<Rightarrow> int \<Rightarrow> string result"
  tx_from_hex :: "json \<Rightarrow> int \<Rightarrow> 'tx result"
  hex_to_bytes :: "json \<Rightarrow> bytes result"
  hex_from_bytes :: "bytes \<Rightarrow> string result"
  tx_get_btc_signature_hash :: "'tx \<Rightarrow> nat \<Rightarrow> bytes \<Rightarrow> json \<Rightarrow> int \<Rightarrow> int \<Rightarrow> bytes result"
  ec_sig_from_bytes :: "bytes \<Rightarrow> bytes \<Rightarrow> int \<Rightarrow> bytes result"
  ec_sig_to_der :: "bytes \<Rightarrow> bytes result"

text \<open>The property \<open>master_key\<close>: the mnemonic is read from the file at every use.\<close>

definition master_key :: "('k, 'tx) wally \<Rightarrow> string \<Rightarrow> filesystem \<Rightarrow> 'k result" where
  "master_key w config_dir fs =
     bind_result (mnemonic_getter config_dir fs) (\<lambda>m.
     bind_result (bip39_mnemonic_to_seed512 w m) (\<lambda>seed.
     bip32_key_from_seed w seed (BIP32_VER_TEST_PRIVATE w) (BIP32_FLAG_KEY_PRIVATE w)))"

text \<open>A derivation path as the library reads it: a list of unsigned 32-bit indices.\<close>

fun path_index :: "json \<Rightarrow> 32 word result" where
  "path_index (JNum n) =
     (if 0 \<le> n \<and> n < 2 ^ 32 then Inr (word_of_int n) else Inl (LibraryError ''OverflowError''))"
| "path_index _ = Inl TypeError"

fun path_indices :: "json list \<Rightarrow> 32 word list result" where
  "path_indices [] = Inr []"
| "path_indices (x # xs) =
     bind_result (path_index x) (\<lambda>i.
     bind_result (path_indices xs) (\<lambda>is. Inr (i # is)))"

fun child_path :: "json \<Rightarrow> 32 word list result" where
  "child_path (JList xs) = path_indices xs"
| "child_path _ = Inl TypeError"

text \<open>Derivation through the hierarchy, one index at a time.\<close>

fun derive_along ::
  "('k \<Rightarrow> 32 word \<Rightarrow> int \<Rightarrow> 'k result) \<Rightarrow> 'k \<Rightarrow> 32 word list \<Rightarrow> int \<Rightarrow> 'k result" where
  "derive_along step k [] flags = Inr k"
| "derive_along step k (i # is) flags =
     bind_result (step k i flags) (\<lambda>k'. derive_along step k' is flags)"

text \<open>
  Modelled from the spec: the library function \<open>wally.bip32_key_from_parent_path\<close>,
  whose code is not among the source files. The spec describes derivation as going
  "through the hierarchy one index at a time"; the function is that iteration of the
  single-index step \<open>bip32_key_from_parent\<close>. What the library does with an empty path
  is not specified; the model lets it fail, and \<open>derive_key\<close> never passes one.
\<close>

definition bip32_key_from_parent_path ::
  "('k, 'tx) wally \<Rightarrow> 'k \<Rightarrow> json \<Rightarrow> int \<Rightarrow> 'k result" where
  "bip32_key_from_parent_path w k path flags =
     bind_result (child_path path) (\<lambda>p.
     if p = [] then Inl (LibraryError ''WALLY_EINVAL'')
     else derive_along (bip32_key_from_parent w) k p flags)"

text \<open>\<open>WallyAuthenticator.derive_key\<close>\<close>

definition derive_key :: "('k, 'tx) wally \<Rightarrow> string \<Rightarrow> filesystem \<Rightarrow> json \<Rightarrow> 'k result" where
  "derive_key w config_dir fs path =
     (if \<not> truthy path then master_key w config_dir fs
      else bind_result (master_key w config_dir fs) (\<lambda>mk.
           bip32_key_from_parent_path w mk path (BIP32_FLAG_KEY_PRIVATE w)))"

text \<open>
  Following the spec's words: deriving a path starting from a given key, one index at a
  time. The program itself has no such operation; it always starts from the master key.
\<close>

definition spec_derive_from :: "('k, 'tx) wally \<Rightarrow> 'k \<Rightarrow> 32 word list \<Rightarrow> 'k result" where
  "spec_derive_from w k p = derive_along (bip32_key_from_parent w) k p (BIP32_FLAG_KEY_PRIVATE w)"

text \<open>A typed derivation path as the JSON list the program receives.\<close>

definition jpath :: "32 word list \<Rightarrow> json" where
  "jpath p = JList (map (\<lambda>i. JNum (uint i)) p)"

definition get_xpub :: "('k, 'tx) wally \<Rightarrow> string \<Rightarrow> filesystem \<Rightarrow> json \<Rightarrow> string result" where
  "get_xpub w config_dir fs path =
     bind_result (derive_key w config_dir fs path) (\<lambda>k.
     bip32_key_to_base58 w k (BIP32_FLAG_KEY_PUBLIC w))"

definition get_privkey :: "('k, 'tx) wally \<Rightarrow> string \<Rightarrow> filesystem \<Rightarrow> json \<Rightarrow> bytes result" where
  "get_privkey w config_dir fs path =
     bind_result (derive_key w config_dir fs path) (bip32_key_get_priv_key w)"

subsection \<open>Signing a transaction\<close>

text \<open>\<open>utxo['script_type'] in [14, 15, 159, 162]\<close>\<close>

definition is_segwit_type :: "json \<Rightarrow> bool" where
  "is_segwit_type v = (v \<in> set [JNum 14, JNum 15, JNum 159, JNum 162])"

text \<open>\<open>bytearray.append\<close>: the value must be a byte.\<close>

definition bytearray_append :: "bytes \<Rightarrow> int \<Rightarrow> bytes result" where
  "bytearray_append b v = (if 0 \<le> v \<and> v < 256 then Inr (b @ [word_of_int v]) else Inl ValueError)"

text \<open>The values a \<open>for\<close> loop visits.\<close>

fun iterate :: "json \<Rightarrow> json list result" where
  "iterate (JList xs) = Inr xs"
| "iterate (JStr s) = Inr (map (\<lambda>c. JStr [c]) s)"
| "iterate (JObj kvs) = Inr (map JStr (remdups (map fst kvs)))"
| "iterate _ = Inl TypeError"

text \<open>The body of the loop of \<open>sign_tx\<close> for the input \<open>utxo\<close> at position \<open>index\<close>.\<close>

definition sign_input ::
  "('k, 'tx) wally \<Rightarrow> string \<Rightarrow> filesystem \<Rightarrow> json \<Rightarrow> nat \<Rightarrow> json \<Rightarrow> string result" where
  "sign_input w config_dir fs txdetails index utxo =
     bind_result (getitem txdetails ''transaction'') (\<lambda>hex.
     bind_result (tx_from_hex w hex (WALLY_TX_FLAG_USE_WITNESS w)) (\<lambda>wally_tx.
     bind_result (getitem utxo ''script_type'') (\<lambda>script_type.
     let is_segwit = is_segwit_type script_type in
     if \<not> is_segwit then Inl (NotImplementedError ''Non-segwit input'')
     else
       let flags = (if is_segwit then WALLY_TX_FLAG_USE_WITNESS w else 0) in
       bind_result (getitem utxo ''prevout_script'') (\<lambda>ps.
       bind_result (hex_to_bytes w ps) (\<lambda>prevout_script.
       bind_result (getitem utxo ''satoshi'') (\<lambda>satoshi.
       bind_result (tx_get_btc_signature_hash w wally_tx index prevout_script satoshi
                      (WALLY_SIGHASH_ALL w) flags) (\<lambda>txhash.
       bind_result (getitem utxo ''user_path'') (\<lambda>path.
       bind_result (get_privkey w config_dir fs path) (\<lambda>privkey.
       bind_result (ec_sig_from_bytes w privkey txhash (EC_FLAG_ECDSA w OR EC_FLAG_GRIND_R w))
         (\<lambda>signature.
       bind_result (ec_sig_to_der w signature) (\<lambda>der.
       bind_result (bytearray_append der (WALLY_SIGHASH_ALL w)) (\<lambda>signed.
       hex_from_bytes w signed))))))))))))"

text \<open>The loop: \<open>signatures\<close> collects the hex signatures of the inputs visited so far.\<close>

fun sign_inputs ::
  "('k, 'tx) wally \<Rightarrow> string \<Rightarrow> filesystem \<Rightarrow> json \<Rightarrow> nat \<Rightarrow> json list \<Rightarrow> string list \<Rightarrow>
     string list result" where
  "sign_inputs w config_dir fs txdetails index [] signatures = Inr signatures"
| "sign_inputs w config_dir fs txdetails index (utxo # utxos) signatures =
     bind_result (sign_input w config_dir fs txdetails index utxo) (\<lambda>s.
     sign_inputs w config_dir fs txdetails (Suc index) utxos (signatures @ [s]))"

text \<open>\<open>txdetails['used_utxos'] or txdetails['old_used_utxos']\<close>\<close>

definition tx_utxos :: "json \<Rightarrow> json result" where
  "tx_utxos txdetails =
     bind_result (getitem txdetails ''used_utxos'') (\<lambda>u.
     if truthy u then Inr u else getitem txdetails ''old_used_utxos'')"

text \<open>The inputs the loop of \<open>sign_tx\<close> visits for a request.\<close>

definition request_inputs :: "json \<Rightarrow> json list result" where
  "request_inputs details =
     bind_result (getitem details ''transaction'') (\<lambda>txdetails.
     bind_result (tx_utxos txdetails) iterate)"

text \<open>\<open>WallyAuthenticator.sign_tx\<close>\<close>

definition sign_tx ::
  "('k, 'tx) wally \<Rightarrow> python \<Rightarrow> string \<Rightarrow> filesystem \<Rightarrow> json \<Rightarrow> string result" where
  "sign_tx w py config_dir fs details =
     bind_result (getitem details ''transaction'') (\<lambda>txdetails.
     bind_result (tx_utxos txdetails) (\<lambda>utxos.
     bind_result (iterate utxos) (\<lambda>inputs.
     bind_result (sign_inputs w config_dir fs txdetails 0 inputs []) (\<lambda>signatures.
     Inr (json_dumps py (JObj [(''signatures'', JList (map JStr signatures))]))))))"

subsection \<open>A toy signer for concrete runs\<close>

text \<open>
  The constants are the library's; the functions are stand-ins without any
  cryptography: a key is the byte string it was derived from, extended by one byte per
  derivation step, and a signature hash is the previous output script.
\<close>

definition toy_wally :: "(bytes, string) wally" where
  "toy_wally = \<lparr>
     BIP32_VER_TEST_PRIVATE = 0x04358394,
     BIP32_FLAG_KEY_PRIVATE = 0,
     BIP32_FLAG_KEY_PUBLIC = 1,
     WALLY_TX_FLAG_USE_WITNESS = 1,
     WALLY_SIGHASH_ALL = 1,
     EC_FLAG_ECDSA = 1,
     EC_FLAG_GRIND_R = 4,
     bip39_mnemonic_to_seed512 = (\<lambda>m. Inr (replicate (length m) 7)),
     bip32_key_from_seed = (\<lambda>seed ver flags. Inr seed),
     bip32_key_from_parent = (\<lambda>k i flags. Inr (k @ [ucast i])),
     bip32_key_get_priv_key = (\<lambda>k. Inr k),
     bip32_key_to_base58 = (\<lambda>k flags. Inr ''tpub''),
     tx_from_hex = (\<lambda>j flags. case j of JStr s \<Rightarrow> Inr s | _ \<Rightarrow> Inl TypeError),
     hex_to_bytes = (\<lambda>j. case j of JStr s \<Rightarrow> Inr (replicate (length s div 2) 0) | _ \<Rightarrow> Inl TypeError),
     hex_from_bytes = (\<lambda>b. Inr (concat (map (\<lambda>x. ''00'') b))),
     tx_get_btc_signature_hash = (\<lambda>tx index script satoshi sighash flags. Inr script),
     ec_sig_from_bytes = (\<lambda>priv hash flags. Inr (take 1 priv @ hash)),
     ec_sig_to_der = (\<lambda>s. Inr (48 # s))
   \<rparr>"


section \<open>The two-factor resolver (class TwoFactorResolver)\<close>

text \<open>
  The console: the lines the user will type, and the chunks written so far.
  \<open>input(prompt)\<close> writes the prompt and reads one line, raising \<open>EOFError\<close> when there
  is none; \<open>print(s)\<close> writes \<open>s\<close> and a line feed.
\<close>

record console =
  stdin :: "string list"
  stdout :: "string list"

definition py_input :: "string \<Rightarrow> console \<Rightarrow> string result \<times> console" where
  "py_input prompt c =
     (case stdin c of
        [] \<Rightarrow> (Inl EOFError, c\<lparr>stdout := stdout c @ [prompt]\<rparr>)
      | l # ls \<Rightarrow> (Inr l, c\<lparr>stdin := ls, stdout := stdout c @ [prompt]\<rparr>))"

definition py_print :: "string \<Rightarrow> console \<Rightarrow> console" where
  "py_print s c = c\<lparr>stdout := stdout c @ [s @ [LF]]\<rparr>"

text \<open>\<open>len(v)\<close> and \<open>v[i]\<close> with an integer index (a negative index counts from the end).\<close>

fun py_len :: "json \<Rightarrow> nat result" where
  "py_len (JList xs) = Inr (length xs)"
| "py_len (JStr s) = Inr (length s)"
| "py_len (JObj kvs) = Inr (length kvs)"
| "py_len _ = Inl TypeError"

definition index_of :: "nat \<Rightarrow> int \<Rightarrow> nat result" where
  "index_of n i =
     (let j = (if i < 0 then int n + i else i)
      in if 0 \<le> j \<and> j < int n then Inr (nat j) else Inl IndexError)"

fun getitem_int :: "json \<Rightarrow> int \<Rightarrow> json result" where
  "getitem_int (JList xs) i = bind_result (index_of (length xs) i) (\<lambda>j. Inr (xs ! j))"
| "getitem_int (JStr s) i = bind_result (index_of (length s) i) (\<lambda>j. Inr (JStr [s ! j]))"
| "getitem_int (JObj kvs) i = Inl (KeyError (JNum i))"
| "getitem_int _ i = Inl TypeError"

text \<open>The loop of \<open>select_auth_factor\<close> that prints the numbered factors.\<close>

fun print_factors :: "python \<Rightarrow> nat \<Rightarrow> json list \<Rightarrow> console \<Rightarrow> console" where
  "print_factors py i [] c = c"
| "print_factors py i (factor # factors) c =
     print_factors py (Suc i) factors
       (py_print (str_of py (JNum (int i)) @ '') '' @ str_of py factor) c)"

text \<open>\<open>TwoFactorResolver.select_auth_factor\<close>\<close>

definition select_auth_factor :: "python \<Rightarrow> json \<Rightarrow> console \<Rightarrow> json result \<times> console" where
  "select_auth_factor py factors c =
     (case py_len factors of
        Inl e \<Rightarrow> (Inl e, c)
      | Inr n \<Rightarrow>
          if n > 1 then
            (case iterate factors of
               Inl e \<Rightarrow> (Inl e, c)
             | Inr fs \<Rightarrow>
                 (case py_input ''Select factor: '' (print_factors py 0 fs c) of
                    (Inl e, c2) \<Rightarrow> (Inl e, c2)
                  | (Inr line, c2) \<Rightarrow>
                      (case int_of py line of
                         Inl e \<Rightarrow> (Inl e, c2)
                       | Inr i \<Rightarrow> (getitem_int factors i, c2))))
          else (getitem_int factors 0, c))"

definition twofactor_prompt :: "python \<Rightarrow> json \<Rightarrow> json \<Rightarrow> json \<Rightarrow> string" where
  "twofactor_prompt py action meth attempts =
     ''Enter 2fa code for action '' @ [CHR 0x27] @ str_of py action @ [CHR 0x27] @
     '' sent by '' @ str_of py meth @
     '' ('' @ str_of py attempts @ '' attempts remaining): ''"

text \<open>\<open>TwoFactorResolver.resolve\<close>\<close>

definition TwoFactorResolver_resolve :: "python \<Rightarrow> json \<Rightarrow> console \<Rightarrow> string result \<times> console" where
  "TwoFactorResolver_resolve py details c =
     (case getitem details ''action'' of
        Inl e \<Rightarrow> (Inl e, c)
      | Inr action \<Rightarrow>
          (case getitem details ''method'' of
             Inl e \<Rightarrow> (Inl e, c)
           | Inr meth \<Rightarrow>
               (case getitem details ''attempts_remaining'' of
                  Inl e \<Rightarrow> (Inl e, c)
                | Inr attempts \<Rightarrow> py_input (twofactor_prompt py action meth attempts) c)))"

section \<open>The action resolver\<close>

text \<open>
  The auth-handler functions of the backend library act on a handler \<open>'h\<close> and change
  the world \<open>'w\<close>. \<open>auth_handler_get_status\<close> stands for the library call followed by
  \<open>json.loads\<close>: it yields the parsed status.
\<close>

record ('h, 'w) gdk_handlers =
  auth_handler_get_status :: "'h \<Rightarrow> 'w \<Rightarrow> json result \<times> 'w"
  auth_handler_request_code :: "'h \<Rightarrow> json \<Rightarrow> 'w \<Rightarrow> unit result \<times> 'w"
  auth_handler_resolve_code :: "'h \<Rightarrow> string \<Rightarrow> 'w \<Rightarrow> unit result \<times> 'w"
  auth_handler_call :: "'h \<Rightarrow> 'w \<Rightarrow> unit result \<times> 'w"

text \<open>
  The collaborators reached through the global \<open>context\<close>: the methods of
  \<open>context.twofac_resolver\<close> and \<open>context.authenticator.resolve\<close>.
\<close>

record 'w cli_context =
  twofac_select_auth_factor :: "json \<Rightarrow> 'w \<Rightarrow> json result \<times> 'w"
  twofac_resolve :: "json \<Rightarrow> 'w \<Rightarrow> string result \<times> 'w"
  authenticator_resolve :: "json \<Rightarrow> 'w \<Rightarrow> string result \<times> 'w"

text \<open>What one pass through the body of the loop ends with.\<close>

datatype 'a outcome = Return 'a | Raise error | Again

text \<open>A call made for its effect: an exception ends the loop, otherwise it goes on.\<close>

definition proceed :: "unit result \<times> 'w \<Rightarrow> json outcome \<times> 'w" where
  "proceed r = (case r of (Inl e, w) \<Rightarrow> (Raise e, w) | (Inr _, w) \<Rightarrow> (Again, w))"

text \<open>The branch \<open>request_code\<close>.\<close>

definition request_code_branch ::
  "('h, 'w) gdk_handlers \<Rightarrow> 'w cli_context \<Rightarrow> 'h \<Rightarrow> json \<Rightarrow> 'w \<Rightarrow> json outcome \<times> 'w" where
  "request_code_branch g ctx h status w =
     (case getitem status ''methods'' of
        Inl e \<Rightarrow> (Raise e, w)
      | Inr methods \<Rightarrow>
          (case twofac_select_auth_factor ctx methods w of
             (Inl e, w2) \<Rightarrow> (Raise e, w2)
           | (Inr authentication_factor, w2) \<Rightarrow>
               proceed (auth_handler_request_code g h authentication_factor w2)))"

text \<open>The branch \<open>resolve_code\<close>.\<close>

definition resolve_code_branch ::
  "('h, 'w) gdk_handlers \<Rightarrow> 'w cli_context \<Rightarrow> 'h \<Rightarrow> json \<Rightarrow> 'w \<Rightarrow> json outcome \<times> 'w" where
  "resolve_code_branch g ctx h status w =
     (case getitem status ''device'' of
        Inl e \<Rightarrow> (Raise e, w)
      | Inr device \<Rightarrow>
          (case (if truthy device then authenticator_resolve ctx status w
                 else twofac_resolve ctx status w) of
             (Inl e, w2) \<Rightarrow> (Raise e, w2)
           | (Inr resolution, w2) \<Rightarrow> proceed (auth_handler_resolve_code g h resolution w2)))"

text \<open>One pass through the body of the loop of \<open>_gdk_resolve\<close>.\<close>

definition resolve_pass ::
  "('h, 'w) gdk_handlers \<Rightarrow> 'w cli_context \<Rightarrow> 'h \<Rightarrow> 'w \<Rightarrow> json outcome \<times> 'w" where
  "resolve_pass g ctx h w =
     (case auth_handler_get_status g h w of
        (Inl e, w1) \<Rightarrow> (Raise e, w1)
      | (Inr status, w1) \<Rightarrow>
          (case getitem status ''status'' of
             Inl e \<Rightarrow> (Raise e, w1)
           | Inr state \<Rightarrow>
               if state = JStr ''error'' then (Raise (RuntimeError status), w1)
               else if state = JStr ''done'' then
                 (case getitem status ''result'' of
                    Inl e \<Rightarrow> (Raise e, w1)
                  | Inr r \<Rightarrow> (Return r, w1))
               else if state = JStr ''request_code'' then request_code_branch g ctx h status w1
               else if state = JStr ''resolve_code'' then resolve_code_branch g ctx h status w1
               else if state = JStr ''call'' then proceed (auth_handler_call g h w1)
               else (Again, w1)))"

text \<open>
  The function \<open>_gdk_resolve\<close>: the loop \<open>while True\<close>. The result is \<open>None\<close> when the
  loop never ends, otherwise the value returned or the exception raised, with the world
  it leaves.
\<close>

partial_function (option) underscore_gdk_resolve ::
  "('h, 'w) gdk_handlers \<Rightarrow> 'w cli_context \<Rightarrow> 'h \<Rightarrow> 'w \<Rightarrow> (json result \<times> 'w) option" where
  "underscore_gdk_resolve g ctx h w =
     (case resolve_pass g ctx h w of
        (Return r, w') \<Rightarrow> Some (Inr r, w')
      | (Raise e, w') \<Rightarrow> Some (Inl e, w')
      | (Again, w') \<Rightarrow> underscore_gdk_resolve g ctx h w')"

subsection \<open>The console context\<close>

text \<open>
  The context the program builds: the two-factor resolver is the console one. The world
  is the console together with the rest of the world.
\<close>

definition on_console ::
  "(console \<Rightarrow> 'a result \<times> console) \<Rightarrow> console \<times> 'b \<Rightarrow> 'a result \<times> (console \<times> 'b)" where
  "on_console f w = (case f (fst w) of (r, c) \<Rightarrow> (r, (c, snd w)))"

definition console_context ::
  "python \<Rightarrow> (json \<Rightarrow> console \<times> 'b \<Rightarrow> string result \<times> (console \<times> 'b)) \<Rightarrow> (console \<times> 'b) cli_context" where
  "console_context py device_resolve = \<lparr>
     twofac_select_auth_factor = (\<lambda>factors. on_console (select_auth_factor py factors)),
     twofac_resolve = (\<lambda>details. on_console (TwoFactorResolver_resolve py details)),
     authenticator_resolve = device_resolve \<rparr>"

subsection \<open>A scripted backend for concrete runs\<close>

text \<open>
  A backend that hands out the statuses of a script, one per status request, and records
  every call made to it and to the collaborators.
\<close>

datatype call_event =
    GetStatus
  | SelectAuthFactor json
  | RequestCode json
  | AuthenticatorResolve json
  | TwoFactorResolve json
  | ResolveCode string
  | Call

record scripted =
  script :: "json list"
  calls :: "call_event list"

definition record_call :: "call_event \<Rightarrow> scripted \<Rightarrow> scripted" where
  "record_call ev w = w\<lparr>calls := calls w @ [ev]\<rparr>"

definition scripted_gdk :: "(unit, scripted) gdk_handlers" where
  "scripted_gdk = \<lparr>
     auth_handler_get_status = (\<lambda>h w.
       case script w of
         [] \<Rightarrow> (Inl (LibraryError ''no more statuses''), record_call GetStatus w)
       | s # ss \<Rightarrow> (Inr s, record_call GetStatus (w\<lparr>script := ss\<rparr>))),
     auth_handler_request_code = (\<lambda>h factor w. (Inr (), record_call (RequestCode factor) w)),
     auth_handler_resolve_code = (\<lambda>h resolution w. (Inr (), record_call (ResolveCode resolution) w)),
     auth_handler_call = (\<lambda>h w. (Inr (), record_call Call w)) \<rparr>"

definition scripted_context ::
  "(json \<Rightarrow> json) \<Rightarrow> (json \<Rightarrow> string) \<Rightarrow> (json \<Rightarrow> string) \<Rightarrow> scripted cli_context" where
  "scripted_context pick code answer = \<lparr>
     twofac_select_auth_factor = (\<lambda>factors w. (Inr (pick factors), record_call (SelectAuthFactor factors) w)),
     twofac_resolve = (\<lambda>details w. (Inr (code details), record_call (TwoFactorResolve details) w)),
     authenticator_resolve = (\<lambda>details w. (Inr (answer details), record_call (AuthenticatorResolve details) w)) \<rparr>"


section \<open>Properties of the mnemonic store\<close>

lemma write_through_frame:
  "write_through fs fn f data = (r, fs1) \<Longrightarrow>
     files fs1 = (files fs)(fn \<mapsto> f\<lparr>content := snd (storage fs fn data)\<rparr>)
     \<and> privileged fs1 = privileged fs \<and> directory_writable fs1 = directory_writable fs
     \<and> storage fs1 = storage fs \<and> creation_mode fs1 = creation_mode fs"
  by (auto simp: write_through_def split: prod.splits)

lemma open_write_ok:
  assumes "open_write fs fn data = (Inr u, fs1)"
  shows "\<exists>f. files fs1 = (files fs)(fn \<mapsto> f) \<and> content f = snd (storage fs fn data)
           \<and> (case files fs fn of None \<Rightarrow> accessor f = Owner
               | Some f0 \<Rightarrow> accessor f = accessor f0 \<and> may_write fs f0)
           \<and> privileged fs1 = privileged fs \<and> directory_writable fs1 = directory_writable fs
           \<and> storage fs1 = storage fs"
proof (cases "files fs fn")
  case None
  with assms have w: "write_through fs fn \<lparr>content = [], mode = creation_mode fs, accessor = Owner\<rparr> data
      = (Inr u, fs1)"
    by (simp add: open_write_def split: if_splits)
  from write_through_frame [OF w] None show ?thesis by auto
next
  case (Some f0)
  with assms have m: "may_write fs f0" and w: "write_through fs fn f0 data = (Inr u, fs1)"
    by (simp_all add: open_write_def split: if_splits)
  from write_through_frame [OF w] Some m show ?thesis by auto
qed

lemma open_write_refused:
  assumes "open_write fs fn data = (Inl (PermissionError x), fs1)"
    and "fst (storage fs fn data) = None"
  shows "fs1 = fs"
  using assms
  by (auto simp: open_write_def write_through_def split: option.splits if_splits prod.splits)

lemma mnemonic_setter_ok:
  assumes "mnemonic_setter cd fs p = (Inr u, fs1)"
  shows "\<exists>f. files fs1 = (files fs)(mnemonic_filename cd \<mapsto> f)
           \<and> content f = snd (storage fs (mnemonic_filename cd) p) \<and> mode f = S_IRUSR
           \<and> (privileged fs \<or> accessor f = Owner)
           \<and> privileged fs1 = privileged fs \<and> directory_writable fs1 = directory_writable fs
           \<and> storage fs1 = storage fs"
proof -
  obtain r fs0 where w: "open_write fs (mnemonic_filename cd) p = (r, fs0)"
    by (cases "open_write fs (mnemonic_filename cd) p")
  with assms obtain u0 where r: "r = Inr u0"
    by (cases r) (auto simp: mnemonic_setter_def split: error.splits)
  from open_write_ok [OF w [unfolded r]] obtain f0 where
    f0: "files fs0 = (files fs)(mnemonic_filename cd \<mapsto> f0)"
    and c0: "content f0 = snd (storage fs (mnemonic_filename cd) p)"
    and p0: "privileged fs0 = privileged fs" "directory_writable fs0 = directory_writable fs"
      "storage fs0 = storage fs"
    by blast
  from assms w r have ch: "chmod fs0 (mnemonic_filename cd) S_IRUSR = (Inr u, fs1)"
    by (simp add: mnemonic_setter_def)
  with f0 have own: "privileged fs0 \<or> accessor f0 = Owner"
    and fs1: "fs1 = fs0\<lparr>files := (files fs0)(mnemonic_filename cd \<mapsto> f0\<lparr>mode := S_IRUSR\<rparr>)\<rparr>"
    by (auto simp: chmod_def split: if_splits)
  show ?thesis
  proof (intro exI conjI)
    show "files fs1 = (files fs)(mnemonic_filename cd \<mapsto> f0\<lparr>mode := S_IRUSR\<rparr>)"
      using fs1 f0 by simp
  qed (use c0 p0 own fs1 in simp_all)
qed

lemma mnemonic_setter_protected:
  assumes "files fs (mnemonic_filename cd) = Some f" and "\<not> may_write fs f"
  shows "mnemonic_setter cd fs q =
           (Inl (ClickException (refusing_message (mnemonic_filename cd))), fs)"
  using assms by (simp add: mnemonic_setter_def open_write_def)

lemma S_IRUSR_not_writable: "\<not> privileged fs \<Longrightarrow> mode f = S_IRUSR \<Longrightarrow> \<not> may_write fs f"
  by (cases "accessor f") (simp_all add: may_write_def S_IRUSR_def)

lemma S_IRUSR_readable: "privileged fs \<or> accessor f = Owner \<Longrightarrow> mode f = S_IRUSR \<Longrightarrow> may_read fs f"
  by (auto simp: may_read_def S_IRUSR_def)

text \<open>
  C4, as amended. Let the process be unprivileged and let the storage take the whole
  phrase. When a first store returns normally, the file holds the phrase and is
  owner-read-only (mode \<open>S_IRUSR\<close>); a second store on that state raises the refusal (a
  \<open>ClickException\<close> with the "Refusing to overwrite" message) and leaves the file system
  as the first store left it: the file still holds the first phrase, and loading gives
  what it gave before.
\<close>

theorem store_twice_refused:
  assumes "mnemonic_setter cd fs p = (Inr u, fs1)"
    and "\<not> privileged fs"
    and "snd (storage fs (mnemonic_filename cd) p) = p"
  shows "(\<exists>f. files fs1 (mnemonic_filename cd) = Some f \<and> content f = p \<and> mode f = S_IRUSR)
       \<and> mnemonic_setter cd fs1 q =
           (Inl (ClickException (refusing_message (mnemonic_filename cd))), fs1)
       \<and> (\<exists>f. files (snd (mnemonic_setter cd fs1 q)) (mnemonic_filename cd) = Some f
             \<and> content f = p \<and> mode f = S_IRUSR)
       \<and> mnemonic_getter cd (snd (mnemonic_setter cd fs1 q)) = mnemonic_getter cd fs1"
proof -
  from mnemonic_setter_ok [OF assms(1)] assms(2,3) obtain f where
    f: "files fs1 (mnemonic_filename cd) = Some f" "content f = p" "mode f = S_IRUSR"
    and unpriv: "\<not> privileged fs1"
    by auto
  have "mnemonic_setter cd fs1 q =
          (Inl (ClickException (refusing_message (mnemonic_filename cd))), fs1)"
    by (rule mnemonic_setter_protected [OF f(1)]) (rule S_IRUSR_not_writable [OF unpriv f(3)])
  with f show ?thesis by simp
qed

theorem store_twice_refused_witness:
  "mnemonic_setter ''cfg'' (user_disk []) (ascii ''abandon ability'')
     = (Inr (), user_disk [(''cfg/mnemonic'', seed_file ''abandon ability'')])
 \<and> mnemonic_setter ''cfg'' (user_disk [(''cfg/mnemonic'', seed_file ''abandon ability'')])
       (ascii ''zoo zone'')
     = (Inl (ClickException (refusing_message ''cfg/mnemonic'')),
        user_disk [(''cfg/mnemonic'', seed_file ''abandon ability'')])"
proof -
  have n: "mnemonic_filename ''cfg'' = ''cfg/mnemonic''"
    by (simp add: mnemonic_filename_def path_join_def)
  have h: "mnemonic_setter ''cfg'' (user_disk []) (ascii ''abandon ability'')
        = (Inr (), user_disk [(''cfg/mnemonic'', seed_file ''abandon ability'')])"
    by (simp add: mnemonic_setter_def open_write_def write_through_def chmod_def n S_IRUSR_def
        user_disk_def sound_storage_def seed_file_def)
  have u: "\<not> privileged (user_disk [])"
    and s: "snd (storage (user_disk []) (mnemonic_filename ''cfg'') (ascii ''abandon ability''))
        = ascii ''abandon ability''"
    by (simp_all add: user_disk_def sound_storage_def)
  from store_twice_refused [OF h u s, of "ascii ''zoo zone''"] h show ?thesis
    by (simp add: n)
qed

text \<open>
  The claim as stated fails for a privileged process, which no permission bit binds:
  the first store leaves the file owner-read-only, and the second store returns
  normally and replaces the phrase.
\<close>

theorem store_twice_overwrites_when_privileged:
  "mnemonic_setter ''cfg'' (root_disk []) (ascii ''abandon ability'')
     = (Inr (), root_disk [(''cfg/mnemonic'', seed_file ''abandon ability'')])
 \<and> mnemonic_setter ''cfg'' (root_disk [(''cfg/mnemonic'', seed_file ''abandon ability'')])
       (ascii ''zoo zone'')
     = (Inr (), root_disk [(''cfg/mnemonic'', seed_file ''zoo zone'')])"
  by (simp add: mnemonic_setter_def open_write_def write_through_def chmod_def S_IRUSR_def
      root_disk_def sound_storage_def seed_file_def mnemonic_filename_def path_join_def
      may_write_def)


section \<open>Properties of setmnemonic\<close>

lemma split_from_no_space:
  "\<forall>c \<in> set cur. \<not> isspace c \<Longrightarrow> w \<in> set (split_from cur s) \<Longrightarrow> c \<in> set w \<Longrightarrow> \<not> isspace c"
proof (induction cur s arbitrary: w rule: split_from.induct)
  case (1 cur)
  then show ?case by (auto split: if_splits)
next
  case (2 cur c cs)
  then show ?case by (auto split: if_splits)
qed

lemma py_join_chars:
  "c \<in> set (py_join sep ws) \<Longrightarrow> c \<in> set sep \<or> (\<exists>w \<in> set ws. c \<in> set w)"
  by (induction sep ws rule: py_join.induct) auto

lemma isspace_carriage_return: "isspace carriage_return"
  by (simp add: isspace_def carriage_return_def)

lemma normalise_no_carriage_return: "carriage_return \<notin> set (normalise m)"
proof
  assume "carriage_return \<in> set (normalise m)"
  then have "carriage_return \<in> set [32] \<or> (\<exists>w \<in> set (py_split m). carriage_return \<in> set w)"
    unfolding normalise_def by (rule py_join_chars)
  moreover have "carriage_return \<notin> set [32]" by (simp add: carriage_return_def)
  ultimately obtain w where "w \<in> set (split_from [] m)" and "carriage_return \<in> set w"
    by (auto simp: py_split_def)
  then have "\<not> isspace carriage_return" by (rule split_from_no_space [rotated]) simp
  then show False by (simp add: isspace_carriage_return)
qed

lemma universal_newlines_id: "carriage_return \<notin> set s \<Longrightarrow> universal_newlines s = s"
  by (induction s rule: universal_newlines.induct) auto

lemma mnemonic_getter_after_setter:
  assumes "mnemonic_setter cd fs p = (Inr u, fs1)"
  shows "mnemonic_getter cd fs1 =
           Inr (universal_newlines (snd (storage fs (mnemonic_filename cd) p)))"
proof -
  from mnemonic_setter_ok [OF assms] obtain f where
    f: "files fs1 (mnemonic_filename cd) = Some f"
      "content f = snd (storage fs (mnemonic_filename cd) p)" "mode f = S_IRUSR"
      "privileged fs \<or> accessor f = Owner" "privileged fs1 = privileged fs"
    by auto
  then have "may_read fs1 f" by (auto intro: S_IRUSR_readable)
  with f show ?thesis by (simp add: mnemonic_getter_def open_read_def)
qed

lemma mnemonic_setter_unprotected:
  assumes "(files fs (mnemonic_filename cd) = None \<and> (privileged fs \<or> directory_writable fs))
         \<or> (\<exists>f. files fs (mnemonic_filename cd) = Some f \<and> may_write fs f
                \<and> (privileged fs \<or> accessor f = Owner))"
    and "fst (storage fs (mnemonic_filename cd) p) = None"
  shows "\<exists>fs1. mnemonic_setter cd fs p = (Inr (), fs1)"
proof (cases "files fs (mnemonic_filename cd)")
  case None
  with assms show ?thesis
    by (auto simp: mnemonic_setter_def open_write_def write_through_def chmod_def
        split: prod.splits)
next
  case (Some f)
  with assms show ?thesis
    by (auto simp: mnemonic_setter_def open_write_def write_through_def chmod_def
        split: prod.splits)
qed

lemma mnemonic_setter_no_entry:
  assumes "files fs (mnemonic_filename cd) = None" and "\<not> privileged fs"
    and "\<not> directory_writable fs"
  shows "mnemonic_setter cd fs q =
           (Inl (ClickException (refusing_message (mnemonic_filename cd))), fs)"
  using assms by (simp add: mnemonic_setter_def open_write_def)

text \<open>
  C5, as amended. The phrase is first normalised (split at Unicode whitespace, joined by
  single spaces). A normalised phrase that fails validation is rejected with "Invalid
  mnemonic" and the file system is unchanged; an exception of the validator is passed
  on, the file system unchanged. A normalised phrase that passes
  validation is stored and a subsequent load returns exactly the normalised phrase,
  provided the process may write the mnemonic file (it does not exist and the directory
  lets the process create it, or it exists, the process may write it and may change its
  mode) and the storage takes the whole phrase. Where the process may not open the file
  for writing (a file without write permission is present and the process is not
  privileged, or no file is present and the directory refuses the creation) the call is
  refused with the overwrite refusal and the file system is unchanged.
\<close>

theorem setmnemonic_outcomes:
  "(validate (normalise m) = Inr False \<longrightarrow>
      setmnemonic validate cd fs m = (Inl (ClickException ''Invalid mnemonic''), fs))
 \<and> (validate (normalise m) = Inr True
      \<and> ((files fs (mnemonic_filename cd) = None \<and> (privileged fs \<or> directory_writable fs))
         \<or> (\<exists>f. files fs (mnemonic_filename cd) = Some f \<and> may_write fs f
                \<and> (privileged fs \<or> accessor f = Owner)))
      \<and> storage fs (mnemonic_filename cd) (normalise m) = (None, normalise m) \<longrightarrow>
      (\<exists>fs1. setmnemonic validate cd fs m = (Inr (), fs1)
           \<and> mnemonic_getter cd fs1 = Inr (normalise m)))
 \<and> (validate (normalise m) = Inr True
      \<and> ((\<exists>f. files fs (mnemonic_filename cd) = Some f \<and> \<not> may_write fs f)
         \<or> (files fs (mnemonic_filename cd) = None \<and> \<not> privileged fs
             \<and> \<not> directory_writable fs)) \<longrightarrow>
      setmnemonic validate cd fs m =
        (Inl (ClickException (refusing_message (mnemonic_filename cd))), fs))
 \<and> (validate (normalise m) = Inl e \<longrightarrow> setmnemonic validate cd fs m = (Inl e, fs))"
proof (intro conjI impI)
  assume "validate (normalise m) = Inr False"
  then show "setmnemonic validate cd fs m = (Inl (ClickException ''Invalid mnemonic''), fs)"
    by (simp add: setmnemonic_def)
next
  assume a: "validate (normalise m) = Inr True
      \<and> ((files fs (mnemonic_filename cd) = None \<and> (privileged fs \<or> directory_writable fs))
         \<or> (\<exists>f. files fs (mnemonic_filename cd) = Some f \<and> may_write fs f
                \<and> (privileged fs \<or> accessor f = Owner)))
      \<and> storage fs (mnemonic_filename cd) (normalise m) = (None, normalise m)"
  then have st: "fst (storage fs (mnemonic_filename cd) (normalise m)) = None"
    "snd (storage fs (mnemonic_filename cd) (normalise m)) = normalise m" by simp_all
  from a st(1) obtain fs1 where s: "mnemonic_setter cd fs (normalise m) = (Inr (), fs1)"
    using mnemonic_setter_unprotected [of fs cd "normalise m"] by blast
  from mnemonic_getter_after_setter [OF s] st(2)
  have "mnemonic_getter cd fs1 = Inr (normalise m)"
    by (simp add: universal_newlines_id normalise_no_carriage_return)
  with a s show "\<exists>fs1. setmnemonic validate cd fs m = (Inr (), fs1)
      \<and> mnemonic_getter cd fs1 = Inr (normalise m)"
    by (simp add: setmnemonic_def)
next
  assume a: "validate (normalise m) = Inr True
      \<and> ((\<exists>f. files fs (mnemonic_filename cd) = Some f \<and> \<not> may_write fs f)
         \<or> (files fs (mnemonic_filename cd) = None \<and> \<not> privileged fs
             \<and> \<not> directory_writable fs))"
  then have "mnemonic_setter cd fs (normalise m) =
      (Inl (ClickException (refusing_message (mnemonic_filename cd))), fs)"
    using mnemonic_setter_protected [of fs cd _ "normalise m"]
      mnemonic_setter_no_entry [of fs cd "normalise m"]
    by blast
  with a show "setmnemonic validate cd fs m =
      (Inl (ClickException (refusing_message (mnemonic_filename cd))), fs)"
    by (simp add: setmnemonic_def)
next
  assume "validate (normalise m) = Inl e"
  then show "setmnemonic validate cd fs m = (Inl e, fs)"
    by (simp add: setmnemonic_def)
qed

lemma normalise_examples:
  "normalise (ascii ''abandon ability'') = ascii ''abandon ability''"
  "normalise (ascii ''zoo'') = ascii ''zoo''"
  "normalise ([32, 32] @ ascii ''abandon'' @ [160, 9, 10] @ ascii ''ability'' @ [8195])
     = ascii ''abandon ability''"
  by (simp_all add: normalise_def py_split_def isspace_def ascii_def)

theorem setmnemonic_outcomes_witness:
  "setmnemonic (accepts_only (ascii ''abandon ability'')) ''cfg'' (user_disk []) (ascii ''zoo'')
     = (Inl (ClickException ''Invalid mnemonic''), user_disk [])
 \<and> (\<exists>fs1. setmnemonic (accepts_only (ascii ''abandon ability'')) ''cfg'' (user_disk [])
        ([32, 32] @ ascii ''abandon'' @ [160, 9, 10] @ ascii ''ability'' @ [8195]) = (Inr (), fs1)
      \<and> mnemonic_getter ''cfg'' fs1 = Inr (ascii ''abandon ability''))
 \<and> setmnemonic (accepts_only (ascii ''abandon ability'')) ''cfg''
      (user_disk [(''cfg/mnemonic'', seed_file ''legal winner'')]) (ascii ''abandon ability'')
     = (Inl (ClickException (refusing_message ''cfg/mnemonic'')),
        user_disk [(''cfg/mnemonic'', seed_file ''legal winner'')])"
proof -
  let ?v = "accepts_only (ascii ''abandon ability'')"
  let ?old = "user_disk [(''cfg/mnemonic'', seed_file ''legal winner'')]"
  have n: "mnemonic_filename ''cfg'' = ''cfg/mnemonic''"
    by (simp add: mnemonic_filename_def path_join_def)
  have ne: "ascii ''zoo'' \<noteq> ascii ''abandon ability''" by (simp add: ascii_def)
  have 1: "setmnemonic ?v ''cfg'' (user_disk []) (ascii ''zoo'')
      = (Inl (ClickException ''Invalid mnemonic''), user_disk [])"
    using setmnemonic_outcomes [of ?v "ascii ''zoo''" "''cfg''" "user_disk []"] ne
    by (simp add: normalise_examples accepts_only_def)
  have 2: "\<exists>fs1. setmnemonic ?v ''cfg'' (user_disk [])
        ([32, 32] @ ascii ''abandon'' @ [160, 9, 10] @ ascii ''ability'' @ [8195]) = (Inr (), fs1)
      \<and> mnemonic_getter ''cfg'' fs1 = Inr (ascii ''abandon ability'')"
    using setmnemonic_outcomes [of ?v
        "[32, 32] @ ascii ''abandon'' @ [160, 9, 10] @ ascii ''ability'' @ [8195]" "''cfg''"
        "user_disk []"]
    by (simp only: normalise_examples)
       (simp add: accepts_only_def user_disk_def sound_storage_def n)
  have 3: "setmnemonic ?v ''cfg'' ?old (ascii ''abandon ability'')
      = (Inl (ClickException (refusing_message ''cfg/mnemonic'')), ?old)"
    using setmnemonic_outcomes [of ?v "ascii ''abandon ability''" "''cfg''" ?old]
    by (simp only: normalise_examples)
       (simp add: accepts_only_def user_disk_def seed_file_def may_write_def n)
  from 1 2 3 show ?thesis by blast
qed

text \<open>
  The claim as stated fails where a protected mnemonic file is present and the process
  is not privileged: the phrase passes validation, yet the call raises the overwrite
  refusal and a subsequent load returns the phrase stored before.
\<close>

theorem setmnemonic_valid_but_refused:
  "accepts_only (ascii ''abandon ability'') (normalise (ascii ''abandon ability'')) = Inr True
 \<and> fst (setmnemonic (accepts_only (ascii ''abandon ability'')) ''cfg''
      (user_disk [(''cfg/mnemonic'', seed_file ''legal winner'')]) (ascii ''abandon ability''))
    = Inl (ClickException (refusing_message ''cfg/mnemonic''))
 \<and> mnemonic_getter ''cfg'' (snd (setmnemonic (accepts_only (ascii ''abandon ability'')) ''cfg''
      (user_disk [(''cfg/mnemonic'', seed_file ''legal winner'')]) (ascii ''abandon ability'')))
    = Inr (ascii ''legal winner'')"
proof -
  have n: "mnemonic_filename ''cfg'' = ''cfg/mnemonic''"
    by (simp add: mnemonic_filename_def path_join_def)
  have r: "universal_newlines (ascii ''legal winner'') = ascii ''legal winner''"
    by (rule universal_newlines_id) (simp add: ascii_def carriage_return_def)
  have s: "setmnemonic (accepts_only (ascii ''abandon ability'')) ''cfg''
      (user_disk [(''cfg/mnemonic'', seed_file ''legal winner'')]) (ascii ''abandon ability'')
    = (Inl (ClickException (refusing_message ''cfg/mnemonic'')),
       user_disk [(''cfg/mnemonic'', seed_file ''legal winner'')])"
    by (simp add: setmnemonic_def normalise_examples accepts_only_def mnemonic_setter_def
        open_write_def n user_disk_def seed_file_def may_write_def)
  have g: "mnemonic_getter ''cfg'' (user_disk [(''cfg/mnemonic'', seed_file ''legal winner'')])
      = Inr (ascii ''legal winner'')"
    by (simp add: mnemonic_getter_def open_read_def n user_disk_def seed_file_def may_read_def r)
  show ?thesis by (simp add: s g normalise_examples accepts_only_def)
qed


section \<open>Properties of setpin\<close>

lemma filenames_distinct: "mnemonic_filename cd \<noteq> pin_data_filename cd"
  by (simp add: mnemonic_filename_def pin_data_filename_def path_join_def)

text \<open>
  When the remote call raises, \<open>setpin\<close> raises the same exception and no file has
  been touched.
\<close>

lemma setpin_remote_failure:
  assumes "mnemonic_getter cd fs = Inr m" and "set_pin s m pin dev = Inl e"
  shows "setpin set_pin cd fs s pin dev = (Inl e, fs)"
  using assms by (simp add: setpin_def)

text \<open>
  A mnemonic file that was present before and is absent after has been removed after a
  write to the pin-data file that raised nothing; the pin-data file then holds what the
  storage took of the PIN data, which need not be all of it.
\<close>

lemma setpin_removed:
  assumes run: "setpin set_pin cd fs s pin dev = (r, fs')"
    and before: "files fs (mnemonic_filename cd) \<noteq> None"
    and after: "files fs' (mnemonic_filename cd) = None"
  shows "\<exists>m pd f. mnemonic_getter cd fs = Inr m \<and> set_pin s m pin dev = Inr pd
           \<and> files fs' (pin_data_filename cd) = Some f
           \<and> content f = snd (storage fs (pin_data_filename cd) pd) \<and> r = Inr pd"
proof (cases "mnemonic_getter cd fs")
  case (Inl e)
  with run before after show ?thesis by (simp add: setpin_def)
next
  case m: (Inr m)
  show ?thesis
  proof (cases "set_pin s m pin dev")
    case (Inl e)
    with m run before after show ?thesis by (simp add: setpin_def)
  next
    case pd: (Inr pd)
    obtain w fs1 where w: "open_write fs (pin_data_filename cd) pd = (w, fs1)"
      by (cases "open_write fs (pin_data_filename cd) pd")
    have keep: "files fs1 (mnemonic_filename cd) = files fs (mnemonic_filename cd)"
      using w filenames_distinct [of cd]
      by (auto simp: open_write_def write_through_def split: option.splits if_splits prod.splits)
    show ?thesis
    proof (cases w)
      case (Inl e)
      with w m pd run have "fs' = fs1" by (simp add: setpin_def)
      with keep before after show ?thesis by simp
    next
      case (Inr u)
      from open_write_ok [OF w [unfolded Inr]] obtain f where
        f1: "files fs1 = (files fs)(pin_data_filename cd \<mapsto> f)"
        and c1: "content f = snd (storage fs (pin_data_filename cd) pd)"
        by blast
      obtain x fs2 where x: "remove_file fs1 (mnemonic_filename cd) = (x, fs2)"
        by (cases "remove_file fs1 (mnemonic_filename cd)")
      have f2: "files fs2 (pin_data_filename cd) = files fs1 (pin_data_filename cd)"
        using x filenames_distinct [of cd]
        by (auto simp: remove_file_def split: option.splits if_splits)
      show ?thesis
      proof (cases x)
        case (Inl e)
        with x have "fs2 = fs1"
          by (auto simp: remove_file_def split: option.splits if_splits)
        with Inl x Inr w m pd run have "fs' = fs1" by (simp add: setpin_def)
        with keep before after show ?thesis by simp
      next
        case xr: (Inr y)
        with x Inr w m pd run have "r = Inr pd" and "fs' = fs2" by (simp_all add: setpin_def)
        with f1 f2 c1 m pd show ?thesis by auto
      qed
    qed
  qed
qed

text \<open>
  C10 fails on the code. On a device that is full, the write to the pin-data file leaves
  the file empty and raises nothing (the failure shows only at the implicit close of the
  file object, where it is discarded); \<open>setpin\<close> then removes the mnemonic file and
  returns the PIN data as if the migration had succeeded. The seed is lost: neither the
  mnemonic nor the PIN data is on the disk.
\<close>

theorem setpin_loses_seed_on_full_device:
  "setpin (\<lambda>s m pin dev. Inr (ascii ''sealed:'' @ m)) ''cfg''
     (full_disk [(''cfg/mnemonic'', seed_file ''abandon ability'')]) () ''1234'' ''laptop''
   = (Inr (ascii ''sealed:abandon ability''),
      full_disk [(''cfg/pin_data'', \<lparr>content = [], mode = 420, accessor = Owner\<rparr>)])"
proof -
  have n: "mnemonic_filename ''cfg'' = ''cfg/mnemonic''"
    and p: "pin_data_filename ''cfg'' = ''cfg/pin_data''"
    by (simp_all add: mnemonic_filename_def pin_data_filename_def path_join_def)
  have r: "universal_newlines (ascii ''abandon ability'') = ascii ''abandon ability''"
    by (rule universal_newlines_id) (simp add: ascii_def carriage_return_def)
  have g: "mnemonic_getter ''cfg'' (full_disk [(''cfg/mnemonic'', seed_file ''abandon ability'')])
      = Inr (ascii ''abandon ability'')"
    by (simp add: mnemonic_getter_def open_read_def n full_disk_def seed_file_def may_read_def r)
  have a: "ascii ''sealed:'' @ ascii ''abandon ability'' = ascii ''sealed:abandon ability''"
    by (simp add: ascii_def)
  have e: "(map_of [(''cfg/mnemonic'', seed_file ''abandon ability'')])
      (''cfg/pin_data'' \<mapsto> \<lparr>content = [], mode = 420, accessor = Owner\<rparr>, ''cfg/mnemonic'' := None)
      = map_of [(''cfg/pin_data'', \<lparr>content = [], mode = 420, accessor = Owner\<rparr>)]"
    by (rule ext) simp
  show ?thesis
    by (simp add: setpin_def g a p n)
       (simp add: open_write_def write_through_def remove_file_def full_disk_def
          full_storage_def e n p)
qed


section \<open>Properties of login and device selection\<close>

lemma plain_examples:
  "plain_dumps (JObj [(''device'', JObj [(''name'', JStr ''ledger@0001:0007:00'')])])
     = ''{'' @ [CHR 0x22] @ ''device'' @ [CHR 0x22] @ '': {'' @ [CHR 0x22] @ ''name'' @ [CHR 0x22] @
       '': '' @ [CHR 0x22] @ ''ledger@0001:0007:00'' @ [CHR 0x22] @ ''}}''"
  "plain_str (JNum 3) = ''3''" "plain_str (JNum 120) = ''120''"
  "plain_int ''12'' = Inr 12"
  by (simp_all add: digits.simps decimal_def plain_int_def is_digit_def)

text \<open>
  C7. For a device-backed authenticator (\<open>WallyAuthenticator\<close> or \<open>HWIDevice\<close>), whenever
  the device has a name the login call to the backend receives the JSON descriptor
  \<open>{"device": {"name": name}}\<close>, an empty mnemonic and an empty password, whatever the
  file system holds (so whatever seed is stored locally); when the name cannot be formed
  the backend is not called at all. The wally variant always has a name.
\<close>

theorem device_backed_login_credentials:
  assumes "is_HardwareDevice a"
  shows "(name py a = Inr n \<longrightarrow>
            login_arguments py a fs =
              Inr (json_dumps py (JObj [(''device'', JObj [(''name'', JStr n)])]), '''', '''')
          \<and> Authenticator_login gdk_login py a fs s =
              gdk_login s (json_dumps py (JObj [(''device'', JObj [(''name'', JStr n)])])) '''' '''')
       \<and> (name py a = Inl e \<longrightarrow> Authenticator_login gdk_login py a fs s = Inl e)
       \<and> (a = WallyAuthenticator cd \<longrightarrow> name py a = Inr ''libwally software signer'')"
  using assms
  by (cases a) (auto simp: login_arguments_def Authenticator_login_def bind_result_def)

theorem device_backed_login_credentials_witness:
  "Authenticator_login (\<lambda>s d m p. Inr (s, d, m, p)) plain_python (WallyAuthenticator ''cfg'' :: unit authenticator)
      (user_disk [(''cfg/mnemonic'', seed_file ''abandon ability'')])
      (7::nat)
    = Inr (7, plain_dumps (JObj [(''device'', JObj [(''name'', JStr ''libwally software signer'')])]),
           '''', '''')
 \<and> Authenticator_login (\<lambda>s d m p. Inr (s, d, m, p)) plain_python
      (HWIDevice (JObj [(''type'', JStr ''ledger''), (''path'', JStr ''0001:0007:00'')]) ())
      (user_disk []) (7::nat)
    = Inr (7, plain_dumps (JObj [(''device'', JObj [(''name'', JStr ''ledger@0001:0007:00'')])]),
           '''', '''')
 \<and> Authenticator_login (\<lambda>s d m p. Inr (s, d, m, p)) plain_python
      (HWIDevice (JObj [(''path'', JStr ''0001:0007:00'')]) ())
      (user_disk []) (7::nat)
    = Inl (KeyError (JStr ''type''))"
proof -
  let ?echo = "\<lambda>(s::nat) (d::string) (m::unicode) (p::string). (Inr (s, d, m, p) :: (nat \<times> string \<times> unicode \<times> string) result)"
  have 1: "is_HardwareDevice (WallyAuthenticator ''cfg'' :: unit authenticator)"
    and 2: "is_HardwareDevice (HWIDevice (JObj [(''type'', JStr ''ledger''), (''path'', JStr ''0001:0007:00'')]) ())"
    and 3: "is_HardwareDevice (HWIDevice (JObj [(''path'', JStr ''0001:0007:00'')]) ())"
    by simp_all
  let ?disk = "(user_disk [(''cfg/mnemonic'', seed_file ''abandon ability'')])"
  let ?nodisk = "(user_disk [])"
  show ?thesis
    using device_backed_login_credentials [OF 1, where py = plain_python and fs = ?disk
        and n = "''libwally software signer''" and gdk_login = ?echo and s = 7
        and e = ValueError and cd = "''cfg''"]
      device_backed_login_credentials [OF 2, where py = plain_python and fs = ?nodisk
        and n = "''ledger@0001:0007:00''" and gdk_login = ?echo and s = 7
        and e = ValueError and cd = "''cfg''"]
      device_backed_login_credentials [OF 3, where py = plain_python and fs = ?nodisk
        and n = "[]" and gdk_login = ?echo and s = 7
        and e = "KeyError (JStr ''type'')" and cd = "''cfg''"]
    by (simp add: bind_result_def plain_python_def)
qed

text \<open>
  C8, as amended. No device: a \<open>ClickException\<close> with the diagnostic guidance. More than
  one device: the explicit rejection "Device selection not implemented". Exactly one
  device that reports no error: the client goes on with that device, constructing the
  authenticator from it (which succeeds when the device has a path the hardware library
  finds). Exactly one device that reports an error: a \<open>ClickException\<close> with that error.
\<close>

theorem get_device_selection:
  "(devices = [] \<longrightarrow> get_device py fd devices = Inl (ClickException no_devices_message))
 \<and> (length devices > 1 \<longrightarrow>
      get_device py fd devices = Inl (NotImplementedError ''Device selection not implemented''))
 \<and> (devices = [d] \<and> map_of d ''error'' = None \<longrightarrow>
      get_device py fd devices = HWIDevice_init fd (JObj d))
 \<and> (devices = [d] \<and> map_of d ''error'' = None \<and> map_of d ''path'' = Some p \<and> fd p = Inr dev \<longrightarrow>
      get_device py fd devices = Inr (HWIDevice (JObj d) dev))
 \<and> (devices = [d] \<and> map_of d ''error'' = Some e \<longrightarrow>
      get_device py fd devices = Inl (ClickException (device_error_message py e)))"
  by (auto simp: get_device_def HWIDevice_init_def bind_result_def)

theorem get_device_selection_witness:
  "get_device plain_python (\<lambda>p. Inr p) [] = Inl (ClickException no_devices_message)
 \<and> get_device plain_python (\<lambda>p. Inr p)
      [[(''type'', JStr ''ledger''), (''path'', JStr ''0001:0007:00'')],
       [(''type'', JStr ''trezor''), (''path'', JStr ''0002:0003:00'')]]
    = Inl (NotImplementedError ''Device selection not implemented'')
 \<and> get_device plain_python (\<lambda>p. Inr p)
      [[(''type'', JStr ''ledger''), (''path'', JStr ''0001:0007:00'')]]
    = Inr (HWIDevice (JObj [(''type'', JStr ''ledger''), (''path'', JStr ''0001:0007:00'')])
            (JStr ''0001:0007:00''))
 \<and> get_device plain_python (\<lambda>p. Inr p)
      [[(''type'', JStr ''ledger''), (''path'', JStr ''0001:0007:00''), (''error'', JStr ''locked'')]]
    = Inl (ClickException (device_error_message plain_python (JStr ''locked'')))"
proof -
  let ?fd = "\<lambda>p::json. (Inr p :: json result)"
  let ?a = "[(''type'', JStr ''ledger''), (''path'', JStr ''0001:0007:00'')]"
  let ?b = "[(''type'', JStr ''trezor''), (''path'', JStr ''0002:0003:00'')]"
  let ?c = "[(''type'', JStr ''ledger''), (''path'', JStr ''0001:0007:00''), (''error'', JStr ''locked'')]"
  have 1: "get_device plain_python ?fd [] = Inl (ClickException no_devices_message)"
    using get_device_selection [of "[]" plain_python ?fd "[]" JNull JNull JNull] by simp
  have 2: "get_device plain_python ?fd [?a, ?b]
      = Inl (NotImplementedError ''Device selection not implemented'')"
    using get_device_selection [of "[?a, ?b]" plain_python ?fd "[]" JNull JNull JNull] by simp
  have 3: "get_device plain_python ?fd [?a] = Inr (HWIDevice (JObj ?a) (JStr ''0001:0007:00''))"
    using get_device_selection [of "[?a]" plain_python ?fd ?a "JStr ''0001:0007:00''" "JStr ''0001:0007:00''" JNull]
    by (simp add: HWIDevice_init_def bind_result_def)
  have 4: "get_device plain_python ?fd [?c]
      = Inl (ClickException (device_error_message plain_python (JStr ''locked'')))"
    using get_device_selection [of "[?c]" plain_python ?fd ?c JNull JNull "JStr ''locked''"] by simp
  from 1 2 3 4 show ?thesis by blast
qed

text \<open>
  The claim as stated fails for a single enumerated device that reports an error:
  exactly one device is found, and the client does not go on with it.
\<close>

theorem get_device_single_device_rejected:
  "length [[(''type'', JStr ''ledger''), (''path'', JStr ''0001:0007:00''), (''error'', JStr ''locked'')]] = 1
 \<and> get_device plain_python (\<lambda>p. Inr p)
      [[(''type'', JStr ''ledger''), (''path'', JStr ''0001:0007:00''), (''error'', JStr ''locked'')]]
    = (Inl (ClickException (''Error with hwi device: locked'' @ [LF] @
          ''Check the device and activate the bitcoin app if necessary''))
       :: json authenticator result)"
  by (simp add: get_device_def device_error_message_def plain_python_def)


section \<open>Properties of key derivation\<close>

lemma bind_result_Inr [simp]: "bind_result (Inr x) f = f x"
  by (simp add: bind_result_def)

lemma bind_result_Inl [simp]: "bind_result (Inl e) f = Inl e"
  by (simp add: bind_result_def)

lemma bind_result_return: "bind_result r Inr = r"
  by (cases r) simp_all

lemma bind_result_assoc:
  "bind_result (bind_result r f) g = bind_result r (\<lambda>x. bind_result (f x) g)"
  by (cases r) simp_all

lemma path_indices_jpath: "path_indices (map (\<lambda>i. JNum (uint i)) p) = Inr p"
proof (induction p)
  case Nil
  show ?case by simp
next
  case (Cons i p)
  have "uint i < 2 ^ 32" using uint_bounded [of i] by simp
  with Cons show ?case by simp
qed

lemma child_path_jpath: "child_path (jpath p) = Inr p"
  by (simp add: jpath_def path_indices_jpath)

lemma truthy_jpath: "truthy (jpath p) = (p \<noteq> [])"
  by (simp add: jpath_def)

lemma derive_along_append:
  "derive_along step k (p1 @ p2) flags =
     bind_result (derive_along step k p1 flags) (\<lambda>k'. derive_along step k' p2 flags)"
proof (induction p1 arbitrary: k)
  case Nil
  show ?case by simp
next
  case (Cons i p1)
  show ?case by (cases "step k i flags") (simp_all add: Cons.IH)
qed

lemma derive_key_jpath:
  "derive_key w cd fs (jpath p) =
     bind_result (master_key w cd fs) (\<lambda>mk. spec_derive_from w mk p)"
proof (cases "p = []")
  case True
  then show ?thesis
    by (simp add: derive_key_def truthy_jpath spec_derive_from_def bind_result_return)
next
  case False
  then show ?thesis
    by (simp add: derive_key_def truthy_jpath spec_derive_from_def
        bip32_key_from_parent_path_def child_path_jpath)
qed

text \<open>
  C6. Deriving the empty path gives the master key, and deriving the concatenation of
  two paths is deriving the second path starting from the key derived for the first
  (any exception of the first derivation is the outcome of the whole).
\<close>

theorem derive_key_compositional:
  "derive_key w cd fs (jpath []) = master_key w cd fs
 \<and> derive_key w cd fs (jpath (p1 @ p2)) =
     bind_result (derive_key w cd fs (jpath p1)) (\<lambda>k. spec_derive_from w k p2)"
proof
  show "derive_key w cd fs (jpath []) = master_key w cd fs"
    by (simp add: derive_key_def truthy_jpath)
next
  have "derive_key w cd fs (jpath (p1 @ p2)) =
      bind_result (master_key w cd fs) (\<lambda>mk.
        bind_result (spec_derive_from w mk p1) (\<lambda>k. spec_derive_from w k p2))"
    by (simp add: derive_key_jpath) (simp add: spec_derive_from_def derive_along_append)
  then show "derive_key w cd fs (jpath (p1 @ p2)) =
      bind_result (derive_key w cd fs (jpath p1)) (\<lambda>k. spec_derive_from w k p2)"
    by (simp add: derive_key_jpath bind_result_assoc)
qed

lemma toy_master_key:
  "master_key toy_wally ''cfg'' (user_disk [(''cfg/mnemonic'', seed_file ''ab'')]) = Inr [7, 7]"
  by (simp add: master_key_def mnemonic_getter_def mnemonic_filename_def path_join_def
      open_read_def may_read_def user_disk_def seed_file_def ascii_def carriage_return_def
      toy_wally_def)

theorem derive_key_compositional_witness:
  "derive_key toy_wally ''cfg''
      (user_disk [(''cfg/mnemonic'', seed_file ''ab'')])
      (jpath []) = Inr [7, 7]
 \<and> derive_key toy_wally ''cfg''
      (user_disk [(''cfg/mnemonic'', seed_file ''ab'')])
      (jpath ([44] @ [0, 1])) = Inr [7, 7, 44, 0, 1]
 \<and> bind_result (derive_key toy_wally ''cfg''
      (user_disk [(''cfg/mnemonic'', seed_file ''ab'')])
      (jpath [44])) (\<lambda>k. spec_derive_from toy_wally k [0, 1]) = Inr [7, 7, 44, 0, 1]"
proof -
  let ?disk = "(user_disk [(''cfg/mnemonic'', seed_file ''ab'')])"
  have m: "master_key toy_wally ''cfg'' ?disk = Inr [7, 7]"
    by (rule toy_master_key)
  have s: "spec_derive_from toy_wally [7, 7, 44] [0, 1] = Inr [7, 7, 44, 0, 1]"
    by (simp add: spec_derive_from_def toy_wally_def)
  have d: "derive_key toy_wally ''cfg'' ?disk (jpath [44]) = Inr [7, 7, 44]"
    by (simp add: derive_key_jpath m) (simp add: spec_derive_from_def toy_wally_def)
  from derive_key_compositional [of toy_wally "''cfg''" ?disk "[44]" "[0, 1]"] m s d
  show ?thesis by simp
qed

section \<open>Properties of transaction signing\<close>

lemma sign_input_non_segwit:
  assumes "getitem utxo ''script_type'' = Inr st" and "\<not> is_segwit_type st"
  shows "sign_input w cd fs txd index utxo =
           bind_result (getitem txd ''transaction'') (\<lambda>hex.
           bind_result (tx_from_hex w hex (WALLY_TX_FLAG_USE_WITNESS w)) (\<lambda>tx.
           Inl (NotImplementedError ''Non-segwit input'')))"
  using assms by (simp add: sign_input_def)

lemma sign_input_non_segwit_fails:
  assumes "getitem utxo ''script_type'' = Inr st" and "\<not> is_segwit_type st"
  shows "\<exists>e. sign_input w cd fs txd index utxo = Inl e"
proof (cases "getitem txd ''transaction''")
  case (Inl e)
  then show ?thesis by (simp add: sign_input_non_segwit [OF assms])
next
  case (Inr hex)
  then show ?thesis
    by (cases "tx_from_hex w hex (WALLY_TX_FLAG_USE_WITNESS w)")
       (simp_all add: sign_input_non_segwit [OF assms])
qed

lemma sign_inputs_fails:
  assumes "i < length utxos" and "getitem (utxos ! i) ''script_type'' = Inr st"
    and "\<not> is_segwit_type st"
  shows "\<exists>e. sign_inputs w cd fs txd index utxos sigs = Inl e"
  using assms
proof (induction utxos arbitrary: i index sigs)
  case Nil
  then show ?case by simp
next
  case (Cons u utxos)
  show ?case
  proof (cases "sign_input w cd fs txd index u")
    case (Inl e)
    then show ?thesis by simp
  next
    case (Inr s)
    have "i \<noteq> 0"
    proof
      assume "i = 0"
      with Cons.prems sign_input_non_segwit_fails [of u st w cd fs txd index] Inr
      show False by auto
    qed
    then obtain j where j: "i = Suc j" by (cases i) auto
    with Cons.prems have "j < length utxos" "getitem (utxos ! j) ''script_type'' = Inr st"
      by simp_all
    from Cons.IH [OF this Cons.prems(3)] Inr show ?thesis by simp
  qed
qed

lemma sign_inputs_first_non_segwit:
  assumes "i < length utxos" and "getitem (utxos ! i) ''script_type'' = Inr st"
    and "\<not> is_segwit_type st"
    and "getitem txd ''transaction'' = Inr hex"
    and "tx_from_hex w hex (WALLY_TX_FLAG_USE_WITNESS w) = Inr tx"
    and "\<forall>j < i. \<exists>s. sign_input w cd fs txd (index + j) (utxos ! j) = Inr s"
  shows "sign_inputs w cd fs txd index utxos sigs = Inl (NotImplementedError ''Non-segwit input'')"
  using assms(1,2,6)
proof (induction utxos arbitrary: i index sigs)
  case Nil
  then show ?case by simp
next
  case (Cons u utxos)
  show ?case
  proof (cases i)
    case 0
    with Cons.prems have "getitem u ''script_type'' = Inr st" by simp
    from sign_input_non_segwit [OF this assms(3), of w cd fs txd index] assms(4,5)
    show ?thesis by simp
  next
    case (Suc j)
    from Cons.prems(3) Suc obtain s where s: "sign_input w cd fs txd index u = Inr s"
      by force
    from Cons.prems Suc have 1: "j < length utxos"
      and 2: "getitem (utxos ! j) ''script_type'' = Inr st" by simp_all
    have 3: "\<forall>l < j. \<exists>s. sign_input w cd fs txd (Suc index + l) (utxos ! l) = Inr s"
    proof (intro allI impI)
      fix l assume "l < j"
      then have "Suc l < i" using Suc by simp
      with Cons.prems(3) obtain s' where
        "sign_input w cd fs txd (index + Suc l) ((u # utxos) ! Suc l) = Inr s'" by blast
      then show "\<exists>s. sign_input w cd fs txd (Suc index + l) (utxos ! l) = Inr s" by simp
    qed
    from Cons.IH [OF 1 2 3] s show ?thesis by simp
  qed
qed

lemma sign_tx_unfold:
  assumes "request_inputs details = Inr utxos"
  shows "\<exists>txd. getitem details ''transaction'' = Inr txd \<and>
           sign_tx w py cd fs details =
             bind_result (sign_inputs w cd fs txd 0 utxos []) (\<lambda>signatures.
               Inr (json_dumps py (JObj [(''signatures'', JList (map JStr signatures))])))"
proof (cases "getitem details ''transaction''")
  case (Inl e)
  with assms show ?thesis by (simp add: request_inputs_def)
next
  case txd: (Inr txd)
  show ?thesis
  proof (cases "tx_utxos txd")
    case (Inl e)
    with assms txd show ?thesis by (simp add: request_inputs_def)
  next
    case (Inr u)
    with assms txd have "iterate u = Inr utxos" by (simp add: request_inputs_def)
    with txd Inr show ?thesis by (simp add: sign_tx_def)
  qed
qed

lemma sign_inputs_first_failure:
  assumes "i < length utxos" and "\<exists>e. sign_input w cd fs txd (index + i) (utxos ! i) = Inl e"
  shows "\<exists>j e. j \<le> i \<and> sign_input w cd fs txd (index + j) (utxos ! j) = Inl e
           \<and> (\<forall>l < j. \<exists>s. sign_input w cd fs txd (index + l) (utxos ! l) = Inr s)
           \<and> sign_inputs w cd fs txd index utxos sigs = Inl e"
  using assms
proof (induction utxos arbitrary: i index sigs)
  case Nil
  then show ?case by simp
next
  case (Cons u utxos)
  show ?case
  proof (cases "sign_input w cd fs txd index u")
    case (Inl e)
    then have "0 \<le> i \<and> sign_input w cd fs txd (index + 0) ((u # utxos) ! 0) = Inl e
        \<and> (\<forall>l < 0. \<exists>s. sign_input w cd fs txd (index + l) ((u # utxos) ! l) = Inr s)
        \<and> sign_inputs w cd fs txd index (u # utxos) sigs = Inl e"
      by simp
    then show ?thesis by blast
  next
    case (Inr s)
    have "i \<noteq> 0"
    proof
      assume "i = 0"
      with Cons.prems(2) Inr show False by simp
    qed
    then obtain i' where i': "i = Suc i'" by (cases i) auto
    with Cons.prems have 1: "i' < length utxos"
      and 2: "\<exists>e. sign_input w cd fs txd (Suc index + i') (utxos ! i') = Inl e"
      by simp_all
    from Cons.IH [OF 1 2, of "sigs @ [s]"] obtain j e where
      j: "j \<le> i'" "sign_input w cd fs txd (Suc index + j) (utxos ! j) = Inl e"
        "\<forall>l < j. \<exists>s. sign_input w cd fs txd (Suc index + l) (utxos ! l) = Inr s"
        "sign_inputs w cd fs txd (Suc index) utxos (sigs @ [s]) = Inl e"
      by blast
    have all: "\<forall>l < Suc j. \<exists>s. sign_input w cd fs txd (index + l) ((u # utxos) ! l) = Inr s"
    proof (intro allI impI)
      fix l assume l: "l < Suc j"
      show "\<exists>s. sign_input w cd fs txd (index + l) ((u # utxos) ! l) = Inr s"
      proof (cases l)
        case 0
        with Inr show ?thesis by simp
      next
        case (Suc l')
        with l j(3) show ?thesis by simp
      qed
    qed
    have "Suc j \<le> i \<and> sign_input w cd fs txd (index + Suc j) ((u # utxos) ! Suc j) = Inl e
        \<and> sign_inputs w cd fs txd index (u # utxos) sigs = Inl e"
      using j i' Inr by simp
    with all show ?thesis by blast
  qed
qed

text \<open>
  C3, as amended. Let the loop of \<open>sign_tx\<close> visit the inputs \<open>utxos\<close> of a request,
  and let one of them have a script type outside the witness-bearing ones. Then
  \<open>sign_tx\<close> raises: it returns no signature for any input. The exception is that of
  the first input whose processing raises, which is that input or an earlier one. When
  the transaction of the request parses and every input before that one is signed
  without an exception, the exception is \<open>NotImplementedError("Non-segwit input")\<close>.
\<close>

theorem sign_tx_rejects_non_witness_input:
  assumes "request_inputs details = Inr utxos"
    and "i < length utxos"
    and "getitem (utxos ! i) ''script_type'' = Inr st"
    and "\<not> is_segwit_type st"
  shows "(\<exists>e. sign_tx w py cd fs details = Inl e)
       \<and> ((\<exists>txd hex tx. getitem details ''transaction'' = Inr txd
              \<and> getitem txd ''transaction'' = Inr hex
              \<and> tx_from_hex w hex (WALLY_TX_FLAG_USE_WITNESS w) = Inr tx
              \<and> (\<forall>j < i. \<exists>s. sign_input w cd fs txd j (utxos ! j) = Inr s)) \<longrightarrow>
            sign_tx w py cd fs details = Inl (NotImplementedError ''Non-segwit input''))
       \<and> (\<exists>txd j e. getitem details ''transaction'' = Inr txd \<and> j \<le> i
              \<and> sign_input w cd fs txd j (utxos ! j) = Inl e
              \<and> (\<forall>l < j. \<exists>s. sign_input w cd fs txd l (utxos ! l) = Inr s)
              \<and> sign_tx w py cd fs details = Inl e)"
proof -
  from sign_tx_unfold [OF assms(1), of w py cd fs] obtain txd where
    txd: "getitem details ''transaction'' = Inr txd"
    and run: "sign_tx w py cd fs details =
      bind_result (sign_inputs w cd fs txd 0 utxos []) (\<lambda>signatures.
        Inr (json_dumps py (JObj [(''signatures'', JList (map JStr signatures))])))"
    by blast
  from sign_inputs_fails [OF assms(2,3,4), of w cd fs txd 0 "[]"] run
  have 1: "\<exists>e. sign_tx w py cd fs details = Inl e" by auto
  have 2: "sign_tx w py cd fs details = Inl (NotImplementedError ''Non-segwit input'')"
    if "getitem details ''transaction'' = Inr txd'" and "getitem txd' ''transaction'' = Inr hex"
      and "tx_from_hex w hex (WALLY_TX_FLAG_USE_WITNESS w) = Inr tx"
      and "\<forall>j < i. \<exists>s. sign_input w cd fs txd' j (utxos ! j) = Inr s"
    for txd' hex tx
  proof -
    from that(1) txd have "txd' = txd" by simp
    with that have "\<forall>j < i. \<exists>s. sign_input w cd fs txd (0 + j) (utxos ! j) = Inr s"
      and "getitem txd ''transaction'' = Inr hex" by simp_all
    from sign_inputs_first_non_segwit [OF assms(2,3,4) this(2) that(3) this(1), of "[]"] run
    show ?thesis by simp
  qed
  have "\<exists>e. sign_input w cd fs txd (0 + i) (utxos ! i) = Inl e"
    using sign_input_non_segwit_fails [OF assms(3,4), of w cd fs txd i] by simp
  from sign_inputs_first_failure [OF assms(2) this, of "[]"] obtain j e where
    j: "j \<le> i" "sign_input w cd fs txd (0 + j) (utxos ! j) = Inl e"
      "\<forall>l < j. \<exists>s. sign_input w cd fs txd (0 + l) (utxos ! l) = Inr s"
      "sign_inputs w cd fs txd 0 utxos [] = Inl e"
    by blast
  with run txd have 3: "\<exists>txd j e. getitem details ''transaction'' = Inr txd \<and> j \<le> i
      \<and> sign_input w cd fs txd j (utxos ! j) = Inl e
      \<and> (\<forall>l < j. \<exists>s. sign_input w cd fs txd l (utxos ! l) = Inr s)
      \<and> sign_tx w py cd fs details = Inl e"
    by (intro exI [of _ txd] exI [of _ j] exI [of _ e]) simp
  from 1 2 3 show ?thesis by blast
qed

lemma toy_privkey:
  "get_privkey toy_wally ''cfg'' (user_disk [(''cfg/mnemonic'', seed_file ''ab'')])
     (JList [JNum 1, JNum 2]) = Inr [7, 7, 1, 2]"
  by (simp add: get_privkey_def derive_key_def toy_master_key bip32_key_from_parent_path_def)
     (simp add: toy_wally_def)

lemma toy_no_privkey:
  "get_privkey toy_wally ''cfg'' (user_disk []) (JList [JNum 1, JNum 2])
     = Inl (FileNotFoundError ''cfg/mnemonic'')"
  by (simp add: get_privkey_def derive_key_def master_key_def mnemonic_getter_def
      mnemonic_filename_def path_join_def open_read_def user_disk_def)

theorem sign_tx_rejects_non_witness_input_witness:
  "sign_tx toy_wally plain_python ''cfg'' (user_disk [(''cfg/mnemonic'', seed_file ''ab'')])
     (JObj [(''transaction'', JObj [(''transaction'', JStr ''0200''), (''used_utxos'', JList [
        JObj [(''script_type'', JNum 14), (''prevout_script'', JStr ''0014''),
              (''satoshi'', JNum 5000), (''user_path'', JList [JNum 1, JNum 2])],
        JObj [(''script_type'', JNum 10), (''prevout_script'', JStr ''76a9''),
              (''satoshi'', JNum 700), (''user_path'', JList [JNum 1, JNum 3])]])])])
   = Inl (NotImplementedError ''Non-segwit input'')"
proof -
  let ?disk = "user_disk [(''cfg/mnemonic'', seed_file ''ab'')]"
  let ?u0 = "JObj [(''script_type'', JNum 14), (''prevout_script'', JStr ''0014''),
              (''satoshi'', JNum 5000), (''user_path'', JList [JNum 1, JNum 2])]"
  let ?u1 = "JObj [(''script_type'', JNum 10), (''prevout_script'', JStr ''76a9''),
              (''satoshi'', JNum 700), (''user_path'', JList [JNum 1, JNum 3])]"
  let ?txd = "JObj [(''transaction'', JStr ''0200''), (''used_utxos'', JList [?u0, ?u1])]"
  let ?details = "JObj [(''transaction'', ?txd)]"
  have a: "request_inputs ?details = Inr [?u0, ?u1]"
    by (simp add: request_inputs_def tx_utxos_def)
  have b: "(1::nat) < length [?u0, ?u1]" by simp
  have c: "getitem ([?u0, ?u1] ! 1) ''script_type'' = Inr (JNum 10)" by simp
  have d: "\<not> is_segwit_type (JNum 10)" by (simp add: is_segwit_type_def)
  have s0: "sign_input toy_wally ''cfg'' ?disk ?txd 0 ?u0 = Inr ''0000000000''"
    by (simp add: sign_input_def is_segwit_type_def toy_privkey)
       (simp add: toy_wally_def bytearray_append_def)
  have e: "\<exists>txd hex tx. getitem ?details ''transaction'' = Inr txd
      \<and> getitem txd ''transaction'' = Inr hex
      \<and> tx_from_hex toy_wally hex (WALLY_TX_FLAG_USE_WITNESS toy_wally) = Inr tx
      \<and> (\<forall>j < 1. \<exists>s. sign_input toy_wally ''cfg'' ?disk txd j ([?u0, ?u1] ! j) = Inr s)"
  proof (intro exI conjI)
    show "getitem ?details ''transaction'' = Inr ?txd" by simp
    show "getitem ?txd ''transaction'' = Inr (JStr ''0200'')" by simp
    show "tx_from_hex toy_wally (JStr ''0200'') (WALLY_TX_FLAG_USE_WITNESS toy_wally) = Inr ''0200''"
      by (simp add: toy_wally_def)
    show "\<forall>j < 1. \<exists>s. sign_input toy_wally ''cfg'' ?disk ?txd j ([?u0, ?u1] ! j) = Inr s"
      using s0 by simp
  qed
  from sign_tx_rejects_non_witness_input [OF a b c d, of toy_wally plain_python "''cfg''" ?disk] e
  show ?thesis by blast
qed

text \<open>
  The claim as stated fails where an earlier step raises first. Here the request holds
  a witness-bearing input followed by an input of another script type, and the mnemonic
  file is missing: signing the first input raises \<open>FileNotFoundError\<close> before the
  script type of the second is looked at, so the exception is not the unsupported
  input type one.
\<close>

theorem sign_tx_earlier_exception_first:
  "request_inputs
     (JObj [(''transaction'', JObj [(''transaction'', JStr ''0200''), (''used_utxos'', JList [
        JObj [(''script_type'', JNum 14), (''prevout_script'', JStr ''0014''),
              (''satoshi'', JNum 5000), (''user_path'', JList [JNum 1, JNum 2])],
        JObj [(''script_type'', JNum 10), (''prevout_script'', JStr ''76a9''),
              (''satoshi'', JNum 700), (''user_path'', JList [JNum 1, JNum 3])]])])])
   = Inr [JObj [(''script_type'', JNum 14), (''prevout_script'', JStr ''0014''),
              (''satoshi'', JNum 5000), (''user_path'', JList [JNum 1, JNum 2])],
          JObj [(''script_type'', JNum 10), (''prevout_script'', JStr ''76a9''),
              (''satoshi'', JNum 700), (''user_path'', JList [JNum 1, JNum 3])]]
 \<and> \<not> is_segwit_type (JNum 10)
 \<and> sign_tx toy_wally plain_python ''cfg'' (user_disk [])
     (JObj [(''transaction'', JObj [(''transaction'', JStr ''0200''), (''used_utxos'', JList [
        JObj [(''script_type'', JNum 14), (''prevout_script'', JStr ''0014''),
              (''satoshi'', JNum 5000), (''user_path'', JList [JNum 1, JNum 2])],
        JObj [(''script_type'', JNum 10), (''prevout_script'', JStr ''76a9''),
              (''satoshi'', JNum 700), (''user_path'', JList [JNum 1, JNum 3])]])])])
   = Inl (FileNotFoundError ''cfg/mnemonic'')"
proof -
  let ?u0 = "JObj [(''script_type'', JNum 14), (''prevout_script'', JStr ''0014''),
              (''satoshi'', JNum 5000), (''user_path'', JList [JNum 1, JNum 2])]"
  let ?u1 = "JObj [(''script_type'', JNum 10), (''prevout_script'', JStr ''76a9''),
              (''satoshi'', JNum 700), (''user_path'', JList [JNum 1, JNum 3])]"
  let ?txd = "JObj [(''transaction'', JStr ''0200''), (''used_utxos'', JList [?u0, ?u1])]"
  have s0: "sign_input toy_wally ''cfg'' (user_disk []) ?txd 0 ?u0
      = Inl (FileNotFoundError ''cfg/mnemonic'')"
    by (simp add: sign_input_def is_segwit_type_def toy_no_privkey)
       (simp add: toy_wally_def)
  have "sign_tx toy_wally plain_python ''cfg'' (user_disk []) (JObj [(''transaction'', ?txd)])
      = Inl (FileNotFoundError ''cfg/mnemonic'')"
    by (simp add: sign_tx_def tx_utxos_def s0)
  then show ?thesis
    by (simp add: request_inputs_def tx_utxos_def is_segwit_type_def)
qed


section \<open>Properties of the action resolver\<close>

lemma gdk_resolve_again:
  "resolve_pass g ctx h w = (Again, w') \<Longrightarrow>
     underscore_gdk_resolve g ctx h w = underscore_gdk_resolve g ctx h w'"
  by (subst underscore_gdk_resolve.simps) simp

lemma gdk_resolve_return:
  "resolve_pass g ctx h w = (Return r, w') \<Longrightarrow>
     underscore_gdk_resolve g ctx h w = Some (Inr r, w')"
  by (subst underscore_gdk_resolve.simps) simp

lemma gdk_resolve_raise:
  "resolve_pass g ctx h w = (Raise e, w') \<Longrightarrow>
     underscore_gdk_resolve g ctx h w = Some (Inl e, w')"
  by (subst underscore_gdk_resolve.simps) simp

lemma scripted_get_status:
  "auth_handler_get_status scripted_gdk h \<lparr>script = s # ss, calls = cs\<rparr> =
     (Inr s, \<lparr>script = ss, calls = cs @ [GetStatus]\<rparr>)"
  by (simp add: scripted_gdk_def record_call_def)

lemma scripted_pass_request_code:
  assumes "getitem s ''status'' = Inr (JStr ''request_code'')"
    and "getitem s ''methods'' = Inr methods"
  shows "resolve_pass scripted_gdk (scripted_context pick code answer) h
           \<lparr>script = s # ss, calls = cs\<rparr> =
         (Again, \<lparr>script = ss,
                  calls = cs @ [GetStatus, SelectAuthFactor methods, RequestCode (pick methods)]\<rparr>)"
  using assms
  by (simp add: resolve_pass_def scripted_get_status request_code_branch_def proceed_def)
     (simp add: scripted_gdk_def scripted_context_def record_call_def proceed_def)

lemma scripted_pass_resolve_code:
  assumes "getitem s ''status'' = Inr (JStr ''resolve_code'')"
    and "getitem s ''device'' = Inr device"
  shows "resolve_pass scripted_gdk (scripted_context pick code answer) h
           \<lparr>script = s # ss, calls = cs\<rparr> =
         (Again, \<lparr>script = ss,
                  calls = cs @ [GetStatus,
                    if truthy device then AuthenticatorResolve s else TwoFactorResolve s,
                    ResolveCode (if truthy device then answer s else code s)]\<rparr>)"
  using assms
  by (simp add: resolve_pass_def scripted_get_status resolve_code_branch_def proceed_def)
     (simp add: scripted_gdk_def scripted_context_def record_call_def proceed_def)

lemma scripted_pass_call:
  assumes "getitem s ''status'' = Inr (JStr ''call'')"
  shows "resolve_pass scripted_gdk (scripted_context pick code answer) h
           \<lparr>script = s # ss, calls = cs\<rparr> =
         (Again, \<lparr>script = ss, calls = cs @ [GetStatus, Call]\<rparr>)"
  using assms
  by (simp add: resolve_pass_def scripted_get_status proceed_def)
     (simp add: scripted_gdk_def record_call_def proceed_def)

lemma scripted_pass_done:
  assumes "getitem s ''status'' = Inr (JStr ''done'')"
    and "getitem s ''result'' = Inr payload"
  shows "resolve_pass scripted_gdk (scripted_context pick code answer) h
           \<lparr>script = s # ss, calls = cs\<rparr> =
         (Return payload, \<lparr>script = ss, calls = cs @ [GetStatus]\<rparr>)"
  using assms
  by (simp add: resolve_pass_def scripted_get_status)

text \<open>
  C1. Against a backend that hands out the four statuses \<open>request_code\<close>,
  \<open>resolve_code\<close>, \<open>call\<close>, \<open>done\<close> in that order, the loop terminates, returns the
  payload of the \<open>done\<close> status, has consumed the whole script, and has made exactly
  these calls in this order: status, method selection on the offered methods, code
  request with the selected method; status, the resolver for the challenge (the
  authenticator when the status names a device, otherwise the two-factor resolver),
  submission of its resolution; status, a plain call; status.
\<close>

theorem resolver_runs_script:
  assumes "getitem s1 ''status'' = Inr (JStr ''request_code'')"
    and "getitem s1 ''methods'' = Inr methods"
    and "getitem s2 ''status'' = Inr (JStr ''resolve_code'')"
    and "getitem s2 ''device'' = Inr device"
    and "getitem s3 ''status'' = Inr (JStr ''call'')"
    and "getitem s4 ''status'' = Inr (JStr ''done'')"
    and "getitem s4 ''result'' = Inr payload"
  shows "underscore_gdk_resolve scripted_gdk (scripted_context pick code answer) ()
           \<lparr>script = [s1, s2, s3, s4], calls = []\<rparr> =
         Some (Inr payload,
           \<lparr>script = [],
            calls = [GetStatus, SelectAuthFactor methods, RequestCode (pick methods),
                     GetStatus,
                     if truthy device then AuthenticatorResolve s2 else TwoFactorResolve s2,
                     ResolveCode (if truthy device then answer s2 else code s2),
                     GetStatus, Call,
                     GetStatus]\<rparr>)"
proof -
  let ?run = "underscore_gdk_resolve scripted_gdk (scripted_context pick code answer) ()"
  let ?c1 = "[GetStatus, SelectAuthFactor methods, RequestCode (pick methods)]"
  let ?c2 = "?c1 @ [GetStatus,
      if truthy device then AuthenticatorResolve s2 else TwoFactorResolve s2,
      ResolveCode (if truthy device then answer s2 else code s2)]"
  let ?c3 = "?c2 @ [GetStatus, Call]"
  have "?run \<lparr>script = [s1, s2, s3, s4], calls = []\<rparr> = ?run \<lparr>script = [s2, s3, s4], calls = ?c1\<rparr>"
    using scripted_pass_request_code [OF assms(1,2), of pick code answer "()" "[s2, s3, s4]" "[]"]
    by (simp add: gdk_resolve_again)
  also have "\<dots> = ?run \<lparr>script = [s3, s4], calls = ?c2\<rparr>"
    by (rule gdk_resolve_again) (rule scripted_pass_resolve_code [OF assms(3,4)])
  also have "\<dots> = ?run \<lparr>script = [s4], calls = ?c3\<rparr>"
    by (rule gdk_resolve_again) (rule scripted_pass_call [OF assms(5)])
  also have "\<dots> = Some (Inr payload, \<lparr>script = [], calls = ?c3 @ [GetStatus]\<rparr>)"
    by (rule gdk_resolve_return) (rule scripted_pass_done [OF assms(6,7)])
  finally show ?thesis by simp
qed

theorem resolver_runs_script_witness:
  "underscore_gdk_resolve scripted_gdk
     (scripted_context (\<lambda>methods. JStr ''email'') (\<lambda>details. ''123456'') (\<lambda>details. ''{}'')) ()
     \<lparr>script = [
        JObj [(''status'', JStr ''request_code''), (''action'', JStr ''send_raw_tx''),
              (''methods'', JList [JStr ''email'', JStr ''sms''])],
        JObj [(''status'', JStr ''resolve_code''), (''action'', JStr ''send_raw_tx''),
              (''method'', JStr ''email''), (''attempts_remaining'', JNum 3), (''device'', JNull)],
        JObj [(''status'', JStr ''call''), (''action'', JStr ''send_raw_tx'')],
        JObj [(''status'', JStr ''done''), (''action'', JStr ''send_raw_tx''),
              (''result'', JObj [(''txhash'', JStr ''ab12'')])]],
      calls = []\<rparr> =
   Some (Inr (JObj [(''txhash'', JStr ''ab12'')]),
     \<lparr>script = [],
      calls = [GetStatus, SelectAuthFactor (JList [JStr ''email'', JStr ''sms'']),
               RequestCode (JStr ''email''),
               GetStatus,
               TwoFactorResolve (JObj [(''status'', JStr ''resolve_code''),
                 (''action'', JStr ''send_raw_tx''), (''method'', JStr ''email''),
                 (''attempts_remaining'', JNum 3), (''device'', JNull)]),
               ResolveCode ''123456'',
               GetStatus, Call,
               GetStatus]\<rparr>)"
proof -
  let ?s1 = "JObj [(''status'', JStr ''request_code''), (''action'', JStr ''send_raw_tx''),
              (''methods'', JList [JStr ''email'', JStr ''sms''])]"
  let ?s2 = "JObj [(''status'', JStr ''resolve_code''), (''action'', JStr ''send_raw_tx''),
              (''method'', JStr ''email''), (''attempts_remaining'', JNum 3), (''device'', JNull)]"
  let ?s3 = "JObj [(''status'', JStr ''call''), (''action'', JStr ''send_raw_tx'')]"
  let ?s4 = "JObj [(''status'', JStr ''done''), (''action'', JStr ''send_raw_tx''),
              (''result'', JObj [(''txhash'', JStr ''ab12'')])]"
  have 1: "getitem ?s1 ''status'' = Inr (JStr ''request_code'')"
    and 2: "getitem ?s1 ''methods'' = Inr (JList [JStr ''email'', JStr ''sms''])"
    and 3: "getitem ?s2 ''status'' = Inr (JStr ''resolve_code'')"
    and 4: "getitem ?s2 ''device'' = Inr JNull"
    and 5: "getitem ?s3 ''status'' = Inr (JStr ''call'')"
    and 6: "getitem ?s4 ''status'' = Inr (JStr ''done'')"
    and 7: "getitem ?s4 ''result'' = Inr (JObj [(''txhash'', JStr ''ab12'')])"
    by simp_all
  from resolver_runs_script [OF 1 2 3 4 5 6 7,
      of "\<lambda>methods. JStr ''email''" "\<lambda>details. ''123456''" "\<lambda>details. ''{}''"]
  show ?thesis by simp
qed

text \<open>
  C2. For a status in state \<open>resolve_code\<close> that carries a \<open>device\<close> entry, one pass of
  the loop calls the authenticator's \<open>resolve\<close> with the status exactly when that entry
  is truthy (it names a device) and otherwise the two-factor resolver's \<open>resolve\<close> with
  the status; an exception of the resolver ends the loop, and otherwise the resolution
  it returned is submitted to the backend with \<open>auth_handler_resolve_code\<close>. The
  program's two-factor resolver is the console one: it reads the action name, the method
  and the remaining attempts from the status, shows them in its prompt, and returns the
  line the user types.
\<close>

theorem resolve_code_delegation:
  assumes "auth_handler_get_status g h w = (Inr status, w1)"
    and "getitem status ''status'' = Inr (JStr ''resolve_code'')"
    and "getitem status ''device'' = Inr device"
  shows "(truthy device \<longrightarrow>
            resolve_pass g ctx h w =
              (case authenticator_resolve ctx status w1 of
                 (Inl e, w2) \<Rightarrow> (Raise e, w2)
               | (Inr resolution, w2) \<Rightarrow> proceed (auth_handler_resolve_code g h resolution w2)))
       \<and> (\<not> truthy device \<longrightarrow>
            resolve_pass g ctx h w =
              (case twofac_resolve ctx status w1 of
                 (Inl e, w2) \<Rightarrow> (Raise e, w2)
               | (Inr resolution, w2) \<Rightarrow> proceed (auth_handler_resolve_code g h resolution w2)))
       \<and> twofac_resolve (console_context py device_resolve) status (c, x) =
            on_console (TwoFactorResolver_resolve py status) (c, x)
       \<and> (getitem status ''action'' = Inr action \<and> getitem status ''method'' = Inr meth
            \<and> getitem status ''attempts_remaining'' = Inr attempts \<and> stdin c = line # rest \<longrightarrow>
            TwoFactorResolver_resolve py status c =
              (Inr line, c\<lparr>stdin := rest,
                           stdout := stdout c @ [twofactor_prompt py action meth attempts]\<rparr>))"
proof (intro conjI impI)
  assume "truthy device"
  with assms show "resolve_pass g ctx h w =
      (case authenticator_resolve ctx status w1 of
         (Inl e, w2) \<Rightarrow> (Raise e, w2)
       | (Inr resolution, w2) \<Rightarrow> proceed (auth_handler_resolve_code g h resolution w2))"
    by (simp add: resolve_pass_def resolve_code_branch_def)
next
  assume "\<not> truthy device"
  with assms show "resolve_pass g ctx h w =
      (case twofac_resolve ctx status w1 of
         (Inl e, w2) \<Rightarrow> (Raise e, w2)
       | (Inr resolution, w2) \<Rightarrow> proceed (auth_handler_resolve_code g h resolution w2))"
    by (simp add: resolve_pass_def resolve_code_branch_def)
next
  show "twofac_resolve (console_context py device_resolve) status (c, x) =
      on_console (TwoFactorResolver_resolve py status) (c, x)"
    by (simp add: console_context_def)
next
  assume "getitem status ''action'' = Inr action \<and> getitem status ''method'' = Inr meth
    \<and> getitem status ''attempts_remaining'' = Inr attempts \<and> stdin c = line # rest"
  then show "TwoFactorResolver_resolve py status c =
      (Inr line, c\<lparr>stdin := rest,
                   stdout := stdout c @ [twofactor_prompt py action meth attempts]\<rparr>)"
    by (simp add: TwoFactorResolver_resolve_def py_input_def)
qed

theorem resolve_code_delegation_witness:
  "resolve_pass scripted_gdk
     (scripted_context (\<lambda>methods. JStr ''email'') (\<lambda>details. ''123456'') (\<lambda>details. ''{}'')) ()
     \<lparr>script = [JObj [(''status'', JStr ''resolve_code''), (''action'', JStr ''send_raw_tx''),
        (''method'', JStr ''email''), (''attempts_remaining'', JNum 3), (''device'', JNull)]],
      calls = []\<rparr> =
   (Again, \<lparr>script = [],
      calls = [GetStatus,
        TwoFactorResolve (JObj [(''status'', JStr ''resolve_code''), (''action'', JStr ''send_raw_tx''),
          (''method'', JStr ''email''), (''attempts_remaining'', JNum 3), (''device'', JNull)]),
        ResolveCode ''123456'']\<rparr>)
 \<and> resolve_pass scripted_gdk
     (scripted_context (\<lambda>methods. JStr ''email'') (\<lambda>details. ''123456'') (\<lambda>details. ''{}'')) ()
     \<lparr>script = [JObj [(''status'', JStr ''resolve_code''), (''action'', JStr ''get_xpubs''),
        (''device'', JObj [(''name'', JStr ''libwally software signer'')])]],
      calls = []\<rparr> =
   (Again, \<lparr>script = [],
      calls = [GetStatus,
        AuthenticatorResolve (JObj [(''status'', JStr ''resolve_code''), (''action'', JStr ''get_xpubs''),
          (''device'', JObj [(''name'', JStr ''libwally software signer'')])]),
        ResolveCode ''{}'']\<rparr>)
 \<and> TwoFactorResolver_resolve plain_python
     (JObj [(''status'', JStr ''resolve_code''), (''action'', JStr ''send_raw_tx''),
        (''method'', JStr ''email''), (''attempts_remaining'', JNum 3), (''device'', JNull)])
     \<lparr>stdin = [''123456''], stdout = []\<rparr> =
   (Inr ''123456'',
    \<lparr>stdin = [],
     stdout = [''Enter 2fa code for action '' @ [CHR 0x27] @ ''send_raw_tx'' @ [CHR 0x27] @
               '' sent by email (3 attempts remaining): '']\<rparr>)"
proof -
  let ?ctx = "scripted_context (\<lambda>methods. JStr ''email'') (\<lambda>details. ''123456'') (\<lambda>details. ''{}'')"
  let ?s = "JObj [(''status'', JStr ''resolve_code''), (''action'', JStr ''send_raw_tx''),
        (''method'', JStr ''email''), (''attempts_remaining'', JNum 3), (''device'', JNull)]"
  let ?d = "JObj [(''status'', JStr ''resolve_code''), (''action'', JStr ''get_xpubs''),
        (''device'', JObj [(''name'', JStr ''libwally software signer'')])]"
  let ?c = "\<lparr>stdin = [''123456''], stdout = []\<rparr>"
  have gs: "auth_handler_get_status scripted_gdk () \<lparr>script = [?s], calls = []\<rparr>
      = (Inr ?s, \<lparr>script = [], calls = [GetStatus]\<rparr>)"
    and gd: "auth_handler_get_status scripted_gdk () \<lparr>script = [?d], calls = []\<rparr>
      = (Inr ?d, \<lparr>script = [], calls = [GetStatus]\<rparr>)"
    using scripted_get_status [of "()" ?s "[]" "[]"] scripted_get_status [of "()" ?d "[]" "[]"]
    by simp_all
  have ss: "getitem ?s ''status'' = Inr (JStr ''resolve_code'')"
    and sd: "getitem ?s ''device'' = Inr JNull"
    and ds: "getitem ?d ''status'' = Inr (JStr ''resolve_code'')"
    and dd: "getitem ?d ''device'' = Inr (JObj [(''name'', JStr ''libwally software signer'')])"
    by simp_all
  have 1: "resolve_pass scripted_gdk ?ctx () \<lparr>script = [?s], calls = []\<rparr> =
      (Again, \<lparr>script = [], calls = [GetStatus, TwoFactorResolve ?s, ResolveCode ''123456'']\<rparr>)"
    and 3: "TwoFactorResolver_resolve plain_python ?s ?c =
      (Inr ''123456'',
       \<lparr>stdin = [],
        stdout = [''Enter 2fa code for action '' @ [CHR 0x27] @ ''send_raw_tx'' @ [CHR 0x27] @
                  '' sent by email (3 attempts remaining): '']\<rparr>)"
    using resolve_code_delegation [OF gs ss sd, where ctx = ?ctx and py = plain_python
        and device_resolve = "\<lambda>details w. (Inr ''{}'', w)" and c = ?c and x = "()"
        and action = "JStr ''send_raw_tx''" and meth = "JStr ''email''" and attempts = "JNum 3"
        and line = "''123456''" and rest = "[]"]
    by (simp_all add: scripted_context_def scripted_gdk_def record_call_def proceed_def
        twofactor_prompt_def plain_python_def decimal_def digits.simps)
  have 2: "resolve_pass scripted_gdk ?ctx () \<lparr>script = [?d], calls = []\<rparr> =
      (Again, \<lparr>script = [], calls = [GetStatus, AuthenticatorResolve ?d, ResolveCode ''{}'']\<rparr>)"
    using resolve_code_delegation [OF gd ds dd, where ctx = ?ctx and py = plain_python
        and device_resolve = "\<lambda>details w. (Inr ''{}'', w)" and c = ?c and x = "()"
        and action = JNull and meth = JNull and attempts = JNull
        and line = "''123456''" and rest = "[]"]
    by (simp add: scripted_context_def scripted_gdk_def record_call_def proceed_def)
  from 1 2 3 show ?thesis by blast
qed

text \<open>
  C9. When the status the backend reports is in state \<open>error\<close>, the loop ends at once
  by raising \<open>RuntimeError\<close> with exactly the status object the backend reported, and
  the world is the one the status request left: no other call is made. A pass that goes
  on leaves the loop in the same position from the new world, so this holds at whatever
  pass the error status is reached.
\<close>

theorem error_status_raised_verbatim:
  assumes "auth_handler_get_status g h w = (Inr status, w1)"
    and "getitem status ''status'' = Inr (JStr ''error'')"
  shows "underscore_gdk_resolve g ctx h w = Some (Inl (RuntimeError status), w1)
       \<and> (resolve_pass g ctx h w0 = (Again, w) \<longrightarrow>
            underscore_gdk_resolve g ctx h w0 = Some (Inl (RuntimeError status), w1))"
proof -
  from assms have "resolve_pass g ctx h w = (Raise (RuntimeError status), w1)"
    by (simp add: resolve_pass_def)
  then have "underscore_gdk_resolve g ctx h w = Some (Inl (RuntimeError status), w1)"
    by (rule gdk_resolve_raise)
  then show ?thesis by (simp add: gdk_resolve_again)
qed

theorem error_status_raised_verbatim_witness:
  "underscore_gdk_resolve scripted_gdk
     (scripted_context (\<lambda>methods. JStr ''email'') (\<lambda>details. ''000000'') (\<lambda>details. ''{}'')) ()
     \<lparr>script = [
        JObj [(''status'', JStr ''call''), (''action'', JStr ''send_raw_tx'')],
        JObj [(''status'', JStr ''error''), (''action'', JStr ''send_raw_tx''),
              (''error'', JStr ''Invalid Two Factor Authentication Code'')]],
      calls = []\<rparr> =
   Some (Inl (RuntimeError (JObj [(''status'', JStr ''error''), (''action'', JStr ''send_raw_tx''),
              (''error'', JStr ''Invalid Two Factor Authentication Code'')])),
     \<lparr>script = [], calls = [GetStatus, Call, GetStatus]\<rparr>)"
proof -
  let ?ctx = "scripted_context (\<lambda>methods. JStr ''email'') (\<lambda>details. ''000000'') (\<lambda>details. ''{}'')"
  let ?s1 = "JObj [(''status'', JStr ''call''), (''action'', JStr ''send_raw_tx'')]"
  let ?s2 = "JObj [(''status'', JStr ''error''), (''action'', JStr ''send_raw_tx''),
              (''error'', JStr ''Invalid Two Factor Authentication Code'')]"
  have a: "auth_handler_get_status scripted_gdk () \<lparr>script = [?s2], calls = [GetStatus, Call]\<rparr>
      = (Inr ?s2, \<lparr>script = [], calls = [GetStatus, Call, GetStatus]\<rparr>)"
    by (simp add: scripted_get_status)
  have b: "getitem ?s2 ''status'' = Inr (JStr ''error'')" by simp
  have c: "resolve_pass scripted_gdk ?ctx () \<lparr>script = [?s1, ?s2], calls = []\<rparr>
      = (Again, \<lparr>script = [?s2], calls = [GetStatus, Call]\<rparr>)"
    using scripted_pass_call [of ?s1 "\<lambda>methods. JStr ''email''" "\<lambda>details. ''000000''"
        "\<lambda>details. ''{}''" "()" "[?s2]" "[]"]
    by simp
  from error_status_raised_verbatim [OF a b, of ?ctx "\<lparr>script = [?s1, ?s2], calls = []\<rparr>"] c
  show ?thesis by blast
qed


end
